theory Spec2Isabelle
  imports Complex_Main "HOL-Library.Product_Lexorder" "HOL-Library.Log_Nat"
begin

section \<open>Calendar dates and timestamps\<close>

text \<open>
  The services hand Python \<open>date\<close> values to PostgreSQL and read \<open>date\<close> and
  \<open>timestamp\<close> columns back. A date is the triple (year, month, day) of the
  proleptic Gregorian calendar, ordered lexicographically, which on calendar dates is the
  chronological order; years are AD years. A timestamp is a date and the seconds elapsed
  since midnight (sub-second resolution is not modelled).
\<close>

type_synonym date = "nat \<times> nat \<times> nat"
type_synonym timestamp = "date \<times> nat"

definition year_of :: "date \<Rightarrow> nat" where
  "year_of d = fst d"

definition month_of :: "date \<Rightarrow> nat" where
  "month_of d = fst (snd d)"

definition day_of :: "date \<Rightarrow> nat" where
  "day_of d = snd (snd d)"

definition is_leap :: "nat \<Rightarrow> bool" where
  "is_leap y \<longleftrightarrow> (y mod 4 = 0 \<and> y mod 100 \<noteq> 0) \<or> y mod 400 = 0"

definition days_in_month :: "nat \<Rightarrow> nat \<Rightarrow> nat" where
  "days_in_month y m =
     (if m = 2 then (if is_leap y then 29 else 28)
      else if m = 4 \<or> m = 6 \<or> m = 9 \<or> m = 11 then 30 else 31)"

fun next_day :: "date \<Rightarrow> date" where
  "next_day (y, m, d) =
     (if d < days_in_month y m then (y, m, d + 1)
      else if m < 12 then (y, m + 1, 1) else (y + 1, 1, 1))"

fun prev_day :: "date \<Rightarrow> date" where
  "prev_day (y, m, d) =
     (if 1 < d then (y, m, d - 1)
      else if 1 < m then (y, m - 1, days_in_month y (m - 1)) else (y - 1, 12, 31))"

text \<open>\<open>date + timedelta(days=n)\<close> in Python, \<open>date + n\<close> / \<open>date - n\<close> in SQL.\<close>

definition date_add_days :: "date \<Rightarrow> int \<Rightarrow> date" where
  "date_add_days d n =
     (if 0 \<le> n then (next_day ^^ nat n) d else (prev_day ^^ nat (- n)) d)"

text \<open>
  Days since 1970-01-01, by the usual era/year-of-era/day-of-year computation for the
  proleptic Gregorian calendar (the year starts in March so that the leap day comes last).
\<close>

fun days_from_civil :: "date \<Rightarrow> int" where
  "days_from_civil (y, m, d) =
     (let y' = (if m \<le> 2 then int y - 1 else int y);
          era = y' div 400;
          yoe = y' - era * 400;
          mp = (if 2 < m then int m - 3 else int m + 9);
          doy = (153 * mp + 2) div 5 + int d - 1;
          doe = yoe * 365 + yoe div 4 - yoe div 100 + doy
      in era * 146097 + doe - 719468)"

text \<open>\<open>EXTRACT(EPOCH FROM ts)\<close>: seconds since 1970-01-01 00:00:00.\<close>

definition epoch :: "timestamp \<Rightarrow> int" where
  "epoch ts = days_from_civil (fst ts) * 86400 + int (snd ts)"

text \<open>A date compared with a timestamp is the timestamp of its midnight.\<close>

definition midnight :: "date \<Rightarrow> timestamp" where
  "midnight d = (d, 0)"

text \<open>\<open>EXTRACT(HOUR FROM ts)::int\<close>.\<close>

definition hour_of :: "timestamp \<Rightarrow> int" where
  "hour_of ts = int (snd ts div 3600)"

section \<open>Numbers, floats and rounding\<close>

text \<open>
  Numbers are rationals. PostgreSQL \<open>numeric\<close> arithmetic (\<open>AVG\<close>, division) is taken
  as exact. A Python \<open>float\<close> is the rational value of a binary double:
  \<open>float(x)\<close>, the true division of two integers and the product of two floats give the
  double nearest to the exact result, ties to the even significand (overflow and
  subnormal numbers are not modelled). Python's \<open>round(x, 2)\<close> on a float rounds its exact
  value to the nearest hundredth, ties to the even neighbour; PostgreSQL's
  \<open>ROUND(x::numeric, 2)\<close> rounds ties away from zero.
\<close>

definition round_half_even :: "rat \<Rightarrow> int" where
  "round_half_even y =
     (let f = \<lfloor>y\<rfloor>; r = y - of_int f
      in if r < 1 / 2 then f
         else if 1 / 2 < r then f + 1
         else if even f then f else f + 1)"

text \<open>The binary exponent of a positive number: \<open>2 powi ilog2 x \<le> x < 2 powi (ilog2 x + 1)\<close>.\<close>

definition ilog2 :: "rat \<Rightarrow> int" where
  "ilog2 x = (if 1 \<le> x then bitlen \<lfloor>x\<rfloor> - 1 else - bitlen (\<lceil>1 / x\<rceil> - 1))"

text \<open>The nearest double: a significand of 53 bits.\<close>

definition py_float :: "rat \<Rightarrow> rat" where
  "py_float x =
     (if x = 0 then 0
      else let e = ilog2 \<bar>x\<bar> - 52;
               m = round_half_even (\<bar>x\<bar> / 2 powi e)
           in sgn x * of_int m * 2 powi e)"

definition py_round2 :: "rat \<Rightarrow> rat" where
  "py_round2 x = of_int (round_half_even (x * 100)) / 100"

definition pg_round2 :: "rat \<Rightarrow> rat" where
  "pg_round2 x =
     (if 0 \<le> x then of_int \<lfloor>x * 100 + 1 / 2\<rfloor> / 100
      else - (of_int \<lfloor>- x * 100 + 1 / 2\<rfloor> / 100))"

text \<open>\<open>AVG\<close> over the non-null values of a group: \<open>NULL\<close> (here \<open>None\<close>) when there are none.\<close>

definition sql_avg :: "rat list \<Rightarrow> rat option" where
  "sql_avg xs = (if xs = [] then None else Some (sum_list xs / of_nat (length xs)))"

text \<open>\<open>value or 0\<close> in Python, \<open>COALESCE(value, 0)\<close> in SQL.\<close>

definition or_zero :: "rat option \<Rightarrow> rat" where
  "or_zero v = (case v of None \<Rightarrow> 0 | Some x \<Rightarrow> x)"

section \<open>The fact store\<close>

text \<open>
  One record per table row, with the columns the services read. The table definitions
  are not part of the sources; columns are taken from the queries and from the seed
  script, and every column read is taken to be non-null.
\<close>

record admission =
  admission_id :: int
  branch_id :: int
  department_id :: int
  admission_type :: string
  admission_at :: timestamp

record discharge =
  dis_admission_id :: int
  discharge_at :: timestamp
  outcome_code :: string

record hospital_branch =
  b_branch_id :: int
  b_name :: string
  bed_count :: int
  icu_beds :: int
  ventilator_count :: int

record department =
  dp_department_id :: int
  dp_name :: string
  dp_branch_id :: int

record doctor =
  doc_doctor_id :: int
  doc_department_id :: int

record doctor_schedule =
  ds_doctor_id :: int
  slot_date :: date
  is_booked :: bool

record procedure_row =
  p_admission_id :: int

record readmission =
  previous_admission_id :: int
  new_admission_id :: int

record billing_row =
  bl_admission_id :: int
  total_amount :: rat

record resource_allocation_row =
  ra_branch_id :: int
  record_date :: date
  record_hour :: int
  beds_occupied :: int
  icu_occupied :: int
  ventilators_used :: int

text \<open>
  The statements a service sends. \<open>db.execute\<close> may raise for any of them (a missing
  table, a lost connection); which ones do is part of the state of the store.
\<close>

datatype query =
    Q_kpi_core | Q_kpi_procedures | Q_kpi_readmissions | Q_kpi_occupancy
  | Q_kpi_utilization | Q_kpi_cost
  | Q_trend_periods | Q_trend_occupancy
  | Q_moving_avg
  | Q_alert_bed | Q_alert_icu | Q_alert_doctor
  | Q_delay | Q_peak

datatype error = QueryError query

record database =
  admissions :: "admission list"
  discharges :: "discharge list"
  hospital_branches :: "hospital_branch list"
  departments :: "department list"
  doctors :: "doctor list"
  doctor_schedules :: "doctor_schedule list"
  procedures :: "procedure_row list"
  readmissions :: "readmission list"
  billing :: "billing_row list"
  resource_allocation :: "resource_allocation_row list"
  raises :: "query \<Rightarrow> bool"

text \<open>\<open>db.execute(text(q), params)\<close>: the rows the statement selects, or the exception.\<close>

definition execute :: "database \<Rightarrow> query \<Rightarrow> 'a \<Rightarrow> error + 'a" where
  "execute db q rows = (if raises db q then Inl (QueryError q) else Inr rows)"

text \<open>
  \<open>" AND x = ANY(:ids)" if ids else ""\<close>: the clause is there only for a non-empty
  list (\<open>None\<close> and \<open>[]\<close> are both false in Python).
\<close>

definition any_clause :: "int list option \<Rightarrow> int \<Rightarrow> bool" where
  "any_clause ids x =
     (case ids of None \<Rightarrow> True | Some xs \<Rightarrow> (if xs \<noteq> [] then x \<in> set xs else True))"

text \<open>
  \<open>a.admission_at >= :date_from AND a.admission_at < :date_to + interval '1 day'\<close>.
\<close>

definition admitted_between :: "date \<Rightarrow> date \<Rightarrow> timestamp \<Rightarrow> bool" where
  "admitted_between date_from date_to ts \<longleftrightarrow>
     midnight date_from \<le> ts \<and> ts < midnight (next_day date_to)"

text \<open>\<open>EXTRACT(EPOCH FROM (d.discharge_at - a.admission_at))/86400\<close>.\<close>

definition los_days :: "admission \<times> discharge \<Rightarrow> rat" where
  "los_days e = of_int (epoch (discharge_at (snd e)) - epoch (admission_at (fst e))) / 86400"

section \<open>KPI aggregator (services/kpis.py)\<close>

text \<open>
  The \<open>WHERE 1=1 {date_clause} {branch_clause} {dept_clause}\<close> of the core, procedure,
  readmission and cost statements; the date clause is there only when both bounds are given.
\<close>

definition kpi_where ::
  "int list option \<Rightarrow> int list option \<Rightarrow> date option \<Rightarrow> date option \<Rightarrow> admission \<Rightarrow> bool" where
  "kpi_where branch_ids department_ids date_from date_to a \<longleftrightarrow>
     (case (date_from, date_to) of
        (Some df, Some dt) \<Rightarrow> admitted_between df dt (admission_at a)
      | _ \<Rightarrow> True)
     \<and> any_clause branch_ids (branch_id a)
     \<and> any_clause department_ids (department_id a)"

text \<open>The \<open>adm\<close> common table expression: admissions joined with their discharges.\<close>

definition kpi_adm ::
  "database \<Rightarrow> int list option \<Rightarrow> int list option \<Rightarrow> date option \<Rightarrow> date option
     \<Rightarrow> (admission \<times> discharge) list" where
  "kpi_adm db branch_ids department_ids date_from date_to =
     [(a, d). a \<leftarrow> admissions db, d \<leftarrow> discharges db,
        dis_admission_id d = admission_id a,
        kpi_where branch_ids department_ids date_from date_to a]"

record core_row =
  r_total_admissions :: int
  r_total_discharges :: int
  r_avg_los_days :: rat
  r_outcome_recovered :: int
  r_outcome_improved :: int
  r_outcome_transferred :: int
  r_outcome_deceased :: int
  r_outcome_other :: int
  r_emergency_cases :: int
  r_scheduled_cases :: int

text \<open>\<open>COUNT(*) FILTER (WHERE p)\<close>.\<close>

definition count_filter :: "('a \<Rightarrow> bool) \<Rightarrow> 'a list \<Rightarrow> int" where
  "count_filter p xs = int (length (filter p xs))"

definition kpi_core ::
  "database \<Rightarrow> int list option \<Rightarrow> int list option \<Rightarrow> date option \<Rightarrow> date option \<Rightarrow> core_row" where
  "kpi_core db branch_ids department_ids date_from date_to =
     (let adm = kpi_adm db branch_ids department_ids date_from date_to in
      \<lparr> r_total_admissions = int (length adm),
        r_total_discharges = int (length adm),
        r_avg_los_days = or_zero (sql_avg (map los_days adm)),
        r_outcome_recovered = count_filter (\<lambda>e. outcome_code (snd e) = ''Recovered'') adm,
        r_outcome_improved = count_filter (\<lambda>e. outcome_code (snd e) = ''Improved'') adm,
        r_outcome_transferred = count_filter (\<lambda>e. outcome_code (snd e) = ''Transferred'') adm,
        r_outcome_deceased = count_filter (\<lambda>e. outcome_code (snd e) = ''Deceased'') adm,
        r_outcome_other =
          count_filter (\<lambda>e. outcome_code (snd e) \<notin>
             set [''Recovered'', ''Improved'', ''Transferred'', ''Deceased'']) adm,
        r_emergency_cases = count_filter (\<lambda>e. admission_type (fst e) = ''Emergency'') adm,
        r_scheduled_cases =
          count_filter (\<lambda>e. admission_type (fst e) \<in> set [''Scheduled'', ''Transfer'']) adm \<rparr>)"

text \<open>\<open>SELECT COUNT(*) FROM procedures p JOIN admissions a ...\<close>.\<close>

definition kpi_proc_count ::
  "database \<Rightarrow> int list option \<Rightarrow> int list option \<Rightarrow> date option \<Rightarrow> date option \<Rightarrow> int" where
  "kpi_proc_count db branch_ids department_ids date_from date_to =
     int (length [(p, a). p \<leftarrow> procedures db, a \<leftarrow> admissions db,
            admission_id a = p_admission_id p,
            kpi_where branch_ids department_ids date_from date_to a])"

text \<open>\<open>SELECT COUNT(DISTINCT r.previous_admission_id) FROM readmissions r JOIN admissions a ...\<close>.\<close>

definition kpi_readm_count ::
  "database \<Rightarrow> int list option \<Rightarrow> int list option \<Rightarrow> date option \<Rightarrow> date option \<Rightarrow> int" where
  "kpi_readm_count db branch_ids department_ids date_from date_to =
     int (length (remdups [previous_admission_id r. r \<leftarrow> readmissions db, a \<leftarrow> admissions db,
            admission_id a = previous_admission_id r,
            kpi_where branch_ids department_ids date_from date_to a]))"

text \<open>
  \<open>SELECT AVG(ra.beds_occupied * 100.0 / NULLIF(b.bed_count, 0)) FROM resource_allocation ra
  JOIN hospital_branches b ...\<close>: rows of a branch without beds give \<open>NULL\<close>, which
  \<open>AVG\<close> skips. This statement has its own branch and date clauses.
\<close>

definition kpi_bed_occ ::
  "database \<Rightarrow> int list option \<Rightarrow> date option \<Rightarrow> date option \<Rightarrow> rat option" where
  "kpi_bed_occ db branch_ids date_from date_to =
     sql_avg [of_int (beds_occupied ra * 100) / of_int (bed_count b).
        ra \<leftarrow> resource_allocation db, b \<leftarrow> hospital_branches db,
        b_branch_id b = ra_branch_id ra,
        any_clause branch_ids (ra_branch_id ra),
        (case (date_from, date_to) of
           (Some df, Some dt) \<Rightarrow> df \<le> record_date ra \<and> record_date ra \<le> dt
         | _ \<Rightarrow> True),
        bed_count b \<noteq> 0]"

text \<open>
  \<open>SELECT COUNT(*) FILTER (WHERE ds.is_booked) * 100.0 / NULLIF(COUNT(*), 0)
  FROM doctor_schedules ds\<close>, joined with doctors and departments only under a branch filter.
\<close>

definition kpi_util_rows ::
  "database \<Rightarrow> int list option \<Rightarrow> date option \<Rightarrow> date option \<Rightarrow> doctor_schedule list" where
  "kpi_util_rows db branch_ids date_from date_to =
     (let in_dates = (\<lambda>ds. case (date_from, date_to) of
            (Some df, Some dt) \<Rightarrow> df \<le> slot_date ds \<and> slot_date ds \<le> dt
          | _ \<Rightarrow> True)
      in case branch_ids of
           Some (x # xs) \<Rightarrow>
             [ds. ds \<leftarrow> doctor_schedules db, d \<leftarrow> doctors db,
                doc_doctor_id d = ds_doctor_id ds,
                dp \<leftarrow> departments db, dp_department_id dp = doc_department_id d,
                dp_branch_id dp \<in> set (x # xs), in_dates ds]
         | _ \<Rightarrow> [ds. ds \<leftarrow> doctor_schedules db, in_dates ds])"

definition kpi_doc_util ::
  "database \<Rightarrow> int list option \<Rightarrow> date option \<Rightarrow> date option \<Rightarrow> rat option" where
  "kpi_doc_util db branch_ids date_from date_to =
     (let rows = kpi_util_rows db branch_ids date_from date_to in
      if rows = [] then None
      else Some (of_int (count_filter is_booked rows * 100) / of_nat (length rows)))"

text \<open>
  \<open>SELECT CASE WHEN COUNT(DISTINCT b.admission_id) = 0 THEN 0
  ELSE COALESCE(SUM(b.total_amount), 0) / COUNT(DISTINCT b.admission_id) END
  FROM billing b JOIN admissions a ...\<close>.
\<close>

definition kpi_cost_per ::
  "database \<Rightarrow> int list option \<Rightarrow> int list option \<Rightarrow> date option \<Rightarrow> date option \<Rightarrow> rat" where
  "kpi_cost_per db branch_ids department_ids date_from date_to =
     (let rows = [b. b \<leftarrow> billing db, a \<leftarrow> admissions db,
            admission_id a = bl_admission_id b,
            kpi_where branch_ids department_ids date_from date_to a];
          n = length (remdups (map bl_admission_id rows))
      in if n = 0 then 0 else sum_list (map total_amount rows) / of_nat n)"

record kpi_summary =
  avg_length_of_stay_days :: rat
  bed_occupancy_rate_pct :: rat
  total_admissions :: int
  total_discharges :: int
  readmission_rate_30d_pct :: rat
  procedure_volume :: int
  emergency_cases_count :: int
  scheduled_cases_count :: int
  doctor_utilization_pct :: rat
  cost_per_discharge_inr :: rat
  outcome_recovered :: int
  outcome_improved :: int
  outcome_transferred :: int
  outcome_deceased :: int
  outcome_other :: int

definition empty_kpi :: kpi_summary where
  "empty_kpi =
     \<lparr> avg_length_of_stay_days = 0, bed_occupancy_rate_pct = 0,
       total_admissions = 0, total_discharges = 0,
       readmission_rate_30d_pct = 0, procedure_volume = 0,
       emergency_cases_count = 0, scheduled_cases_count = 0,
       doctor_utilization_pct = 0, cost_per_discharge_inr = 0,
       outcome_recovered = 0, outcome_improved = 0, outcome_transferred = 0,
       outcome_deceased = 0, outcome_other = 0 \<rparr>"

text \<open>
  \<open>try: v = db.execute(...).scalar() or 0 / except Exception: db.rollback(); v = 0\<close>.
\<close>

definition guarded :: "database \<Rightarrow> query \<Rightarrow> 'a \<Rightarrow> 'a \<Rightarrow> 'a" where
  "guarded db q dflt v = (case execute db q v of Inl e \<Rightarrow> dflt | Inr x \<Rightarrow> x)"

definition get_kpi_summary ::
  "database \<Rightarrow> int list option \<Rightarrow> int list option \<Rightarrow> date option \<Rightarrow> date option
     \<Rightarrow> error + kpi_summary" where
  "get_kpi_summary db branch_ids department_ids date_from date_to =
     (case execute db Q_kpi_core (kpi_core db branch_ids department_ids date_from date_to) of
        Inl e \<Rightarrow> Inl e
      | Inr r \<Rightarrow>
          if r_total_admissions r = 0 then Inr empty_kpi
          else
            let proc_count = guarded db Q_kpi_procedures 0
                  (kpi_proc_count db branch_ids department_ids date_from date_to);
                readm_count = guarded db Q_kpi_readmissions 0
                  (kpi_readm_count db branch_ids department_ids date_from date_to);
                total_disch = (if r_total_discharges r = 0 then 1 else r_total_discharges r);
                readm_rate = py_float (py_float (of_int readm_count / of_int total_disch) * 100);
                bed_occ = guarded db Q_kpi_occupancy 0
                  (py_float (or_zero (kpi_bed_occ db branch_ids date_from date_to)));
                doc_util = guarded db Q_kpi_utilization 0
                  (py_float (or_zero (kpi_doc_util db branch_ids date_from date_to)));
                cost_per = guarded db Q_kpi_cost 0
                  (py_float (kpi_cost_per db branch_ids department_ids date_from date_to))
            in Inr \<lparr> avg_length_of_stay_days = py_round2 (py_float (r_avg_los_days r)),
                     bed_occupancy_rate_pct = py_round2 bed_occ,
                     total_admissions = r_total_admissions r,
                     total_discharges = r_total_discharges r,
                     readmission_rate_30d_pct = py_round2 readm_rate,
                     procedure_volume = proc_count,
                     emergency_cases_count = r_emergency_cases r,
                     scheduled_cases_count = r_scheduled_cases r,
                     doctor_utilization_pct = py_round2 doc_util,
                     cost_per_discharge_inr = py_round2 cost_per,
                     outcome_recovered = r_outcome_recovered r,
                     outcome_improved = r_outcome_improved r,
                     outcome_transferred = r_outcome_transferred r,
                     outcome_deceased = r_outcome_deceased r,
                     outcome_other = r_outcome_other r \<rparr>)"

section \<open>Calendar truncation and rendering\<close>

text \<open>
  \<open>date_trunc(field, ts)\<close> for the four fields the services use; a week starts on
  Monday (1970-01-01 was a Thursday). Other fields are not used by the services.
\<close>

definition date_trunc :: "string \<Rightarrow> timestamp \<Rightarrow> timestamp" where
  "date_trunc field ts =
     (let d = fst ts in
      if field = ''day'' then midnight d
      else if field = ''week'' then
        midnight (date_add_days d (- ((days_from_civil d + 3) mod 7)))
      else if field = ''month'' then midnight (year_of d, month_of d, 1)
      else if field = ''quarter'' then
        midnight (year_of d, 3 * ((month_of d - 1) div 3) + 1, 1)
      else ts)"

definition digit_char :: "nat \<Rightarrow> char" where
  "digit_char n = ''0123456789'' ! n"

fun digits :: "nat \<Rightarrow> string" where
  "digits n = (if n < 10 then [digit_char n] else digits (n div 10) @ [digit_char (n mod 10)])"

declare digits.simps [simp del]

definition lpad :: "nat \<Rightarrow> string \<Rightarrow> string" where
  "lpad k s = replicate (k - length s) CHR ''0'' @ s"

text \<open>
  \<open>to_char(ts, fmt)\<close> for the template patterns in the services' format strings:
  \<open>YYYY\<close> is the year in at least four digits, \<open>MM\<close> and \<open>DD\<close> the month and the day in
  two, \<open>Q\<close> the quarter number; any other character stands for itself.
\<close>

function to_char_date :: "date \<Rightarrow> string \<Rightarrow> string" where
  "to_char_date d fmt =
     (if fmt = [] then []
      else if take 4 fmt = ''YYYY'' then
        lpad 4 (digits (year_of d)) @ to_char_date d (drop 4 fmt)
      else if take 2 fmt = ''MM'' then
        lpad 2 (digits (month_of d)) @ to_char_date d (drop 2 fmt)
      else if take 2 fmt = ''DD'' then
        lpad 2 (digits (day_of d)) @ to_char_date d (drop 2 fmt)
      else if hd fmt = CHR ''Q'' then
        digits ((month_of d - 1) div 3 + 1) @ to_char_date d (tl fmt)
      else hd fmt # to_char_date d (tl fmt))"
  by pat_completeness auto
termination
  by (relation "measure (\<lambda>(d, fmt). length fmt)") auto

declare to_char_date.simps [simp del]

definition to_char :: "timestamp \<Rightarrow> string \<Rightarrow> string" where
  "to_char ts fmt = to_char_date (fst ts) fmt"

text \<open>
  \<open>GROUP BY key\<close>: one group per distinct key, holding the rows with that key, in the
  order in which the keys first occur.
\<close>

definition group_by :: "('r \<Rightarrow> 'k) \<Rightarrow> 'r list \<Rightarrow> ('k \<times> 'r list) list" where
  "group_by key rows =
     map (\<lambda>k. (k, filter (\<lambda>r. key r = k) rows)) (remdups (map key rows))"

section \<open>Trend engine (services/trends.py, get\_trends)\<close>

definition period_expr :: "string \<Rightarrow> timestamp \<Rightarrow> date" where
  "period_expr granularity ts =
     (if granularity = ''daily'' then fst (date_trunc ''day'' ts)
      else if granularity = ''weekly'' then fst (date_trunc ''week'' ts)
      else if granularity = ''monthly'' then fst (date_trunc ''month'' ts)
      else fst (date_trunc ''quarter'' ts))"

definition period_label :: "string \<Rightarrow> timestamp \<Rightarrow> string" where
  "period_label granularity ts =
     (if granularity = ''daily'' then to_char ts ''YYYY-MM-DD''
      else if granularity = ''weekly'' then to_char (date_trunc ''week'' ts) ''YYYY-MM-DD''
      else if granularity = ''monthly'' then to_char (date_trunc ''month'' ts) ''YYYY-MM''
      else to_char (date_trunc ''quarter'' ts) ''YYYY-Q'')"

definition trend_adm ::
  "database \<Rightarrow> int list option \<Rightarrow> int list option \<Rightarrow> date \<Rightarrow> date
     \<Rightarrow> (admission \<times> discharge) list" where
  "trend_adm db branch_ids department_ids date_from date_to =
     [(a, d). a \<leftarrow> admissions db, d \<leftarrow> discharges db,
        dis_admission_id d = admission_id a,
        admitted_between date_from date_to (admission_at a),
        any_clause branch_ids (branch_id a),
        any_clause department_ids (department_id a)]"

record period_row =
  pr_period_label :: string
  pr_period_dt :: date
  pr_admissions :: int
  pr_avg_los :: "rat option"

text \<open>The \<open>by_period\<close> rows, \<open>GROUP BY 1, 2\<close> and \<open>ORDER BY period_dt\<close>.\<close>

definition trend_by_period ::
  "database \<Rightarrow> string \<Rightarrow> int list option \<Rightarrow> int list option \<Rightarrow> date \<Rightarrow> date
     \<Rightarrow> period_row list" where
  "trend_by_period db granularity branch_ids department_ids date_from date_to =
     sort_key pr_period_dt
       (map (\<lambda>(k, grp).
              \<lparr> pr_period_label = snd k, pr_period_dt = fst k,
                pr_admissions = int (length grp),
                pr_avg_los = sql_avg (map los_days grp) \<rparr>)
          (group_by (\<lambda>e. (period_expr granularity (admission_at (fst e)),
                          period_label granularity (admission_at (fst e))))
             (trend_adm db branch_ids department_ids date_from date_to)))"

definition occ_label :: "string \<Rightarrow> date \<Rightarrow> string" where
  "occ_label granularity d =
     (if granularity = ''daily'' then to_char (midnight d) ''YYYY-MM-DD''
      else if granularity = ''weekly'' then
        to_char (date_trunc ''week'' (midnight d)) ''YYYY-MM-DD''
      else if granularity = ''monthly'' then
        to_char (date_trunc ''month'' (midnight d)) ''YYYY-MM''
      else to_char (date_trunc ''quarter'' (midnight d)) ''YYYY-Q'')"

text \<open>
  The occupancy statement, read into a dictionary from period label to
  \<open>float(r.occ_pct or 0)\<close>; there is one row per label, so the statement's
  \<open>ORDER BY\<close> has no effect on the dictionary.
\<close>

definition trend_occ_rows ::
  "database \<Rightarrow> string \<Rightarrow> int list option \<Rightarrow> date \<Rightarrow> date \<Rightarrow> (string \<times> rat) list" where
  "trend_occ_rows db granularity branch_ids date_from date_to =
     map (\<lambda>(k, grp).
            (k, py_float (or_zero (sql_avg [of_int (beds_occupied (fst rb) * 100)
                                              / of_int (bed_count (snd rb)).
                                            rb \<leftarrow> grp, bed_count (snd rb) \<noteq> 0]))))
       (group_by (\<lambda>rb. occ_label granularity (record_date (fst rb)))
          [(ra, b). ra \<leftarrow> resource_allocation db, b \<leftarrow> hospital_branches db,
             b_branch_id b = ra_branch_id ra,
             date_from \<le> record_date ra, record_date ra \<le> date_to,
             any_clause branch_ids (ra_branch_id ra)])"

text \<open>
  A trend point. \<open>period_dt\<close> is kept as the date itself (the service renders it with
  \<open>str\<close>).
\<close>

record trend_point =
  period :: string
  period_dt :: date
  tp_admissions :: int
  tp_discharges :: int
  tp_avg_los_days :: rat
  tp_occupancy_pct :: rat

definition get_trends ::
  "date \<Rightarrow> database \<Rightarrow> string \<Rightarrow> int list option \<Rightarrow> int list option
     \<Rightarrow> date option \<Rightarrow> date option \<Rightarrow> error + trend_point list" where
  "get_trends today db granularity branch_ids department_ids date_from date_to =
     (let date_from = (case date_from of None \<Rightarrow> date_add_days today (- 90) | Some d \<Rightarrow> d);
          date_to = (case date_to of None \<Rightarrow> today | Some d \<Rightarrow> d)
      in case execute db Q_trend_periods
                (trend_by_period db granularity branch_ids department_ids date_from date_to) of
           Inl e \<Rightarrow> Inl e
         | Inr rows \<Rightarrow>
             let occ_rows = guarded db Q_trend_occupancy []
                   (trend_occ_rows db granularity branch_ids date_from date_to)
             in Inr (map (\<lambda>r.
                  \<lparr> period = pr_period_label r,
                    period_dt = pr_period_dt r,
                    tp_admissions = pr_admissions r,
                    tp_discharges = pr_admissions r,
                    tp_avg_los_days = py_round2 (py_float (or_zero (pr_avg_los r))),
                    tp_occupancy_pct =
                      py_round2 (case map_of occ_rows (pr_period_label r) of
                                   None \<Rightarrow> 0 | Some v \<Rightarrow> v) \<rparr>) rows))"

section \<open>Moving average (services/predictive.py, get\_admission\_trend\_with\_moving\_avg)\<close>

text \<open>
  The \<open>daily\<close> rows: admissions since \<open>CURRENT_DATE - :days\<close> counted per calendar day.
  Only days with at least one admission have a row.
\<close>

definition ma_daily :: "date \<Rightarrow> database \<Rightarrow> int list option \<Rightarrow> int \<Rightarrow> (date \<times> int) list" where
  "ma_daily today db branch_ids days =
     map (\<lambda>(dt, grp). (dt, int (length grp)))
       (group_by (\<lambda>a. fst (date_trunc ''day'' (admission_at a)))
          [a. a \<leftarrow> admissions db,
             midnight (date_add_days today (- days)) \<le> admission_at a,
             any_clause branch_ids (branch_id a)])"

text \<open>
  \<open>AVG(admissions) OVER (ORDER BY dt ROWS BETWEEN 6 PRECEDING AND CURRENT ROW)\<close>:
  \<open>prev\<close> holds the rows before the current one; the frame is the last six of them and
  the current row.
\<close>

fun with_ma :: "(date \<times> int) list \<Rightarrow> (date \<times> int) list \<Rightarrow> (date \<times> int \<times> rat option) list" where
  "with_ma prev [] = []"
| "with_ma prev (r # rs) =
     (fst r, snd r, sql_avg (map (\<lambda>x. of_int (snd x)) (drop (length prev - 6) prev @ [r])))
       # with_ma (prev @ [r]) rs"

record ma_point =
  ma_date :: date
  ma_admissions :: int
  moving_avg_7d :: rat

text \<open>
  \<open>window_days\<close> is put among the statement's parameters, and the statement does not
  refer to it. \<open>ma_date\<close> is kept as the date itself (the service renders it with
  \<open>str\<close>); \<open>float(r.moving_avg or 0)\<close> is the double nearest to the two-decimal number.
\<close>

definition get_admission_trend_with_moving_avg ::
  "date \<Rightarrow> database \<Rightarrow> int list option \<Rightarrow> int \<Rightarrow> int \<Rightarrow> error + ma_point list" where
  "get_admission_trend_with_moving_avg today db branch_ids days window_days =
     (case execute db Q_moving_avg
             (sort_key fst
                (map (\<lambda>(dt, n, ma). (dt, n, map_option pg_round2 ma))
                   (with_ma [] (sort_key fst (ma_daily today db branch_ids days))))) of
        Inl e \<Rightarrow> Inl e
      | Inr rows \<Rightarrow>
          Inr (map (\<lambda>(dt, n, ma).
                 \<lparr> ma_date = dt, ma_admissions = n, moving_avg_7d = py_float (or_zero ma) \<rparr>) rows))"

section \<open>Threshold alerts (services/predictive.py, get\_threshold\_alerts)\<close>

text \<open>\<open>HAVING AVG(...) >= :threshold\<close>: a group whose average is \<open>NULL\<close> is dropped.\<close>

definition having_avg_ge :: "rat \<Rightarrow> ('k \<times> rat option) list \<Rightarrow> ('k \<times> rat) list" where
  "having_avg_ge th rows =
     [(k, v). (k, a) \<leftarrow> rows, v \<leftarrow> (case a of None \<Rightarrow> [] | Some v \<Rightarrow> [v]), th \<le> v]"

text \<open>
  \<open>q_bed\<close>: per (branch id, branch name, record date) the mean of
  \<open>beds_occupied * 100.0 / NULLIF(bed_count, 0)\<close>, kept when it reaches the threshold,
  highest first.
\<close>

definition alert_bed_rows ::
  "database \<Rightarrow> int list option \<Rightarrow> date \<Rightarrow> date \<Rightarrow> rat \<Rightarrow> ((int \<times> string \<times> date) \<times> rat) list" where
  "alert_bed_rows db branch_ids date_from date_to bed_threshold =
     sort_key (\<lambda>r. - snd r)
       (having_avg_ge bed_threshold
          (map (\<lambda>(k, grp).
                 (k, sql_avg [of_int (beds_occupied (fst rb) * 100) / of_int (bed_count (snd rb)).
                              rb \<leftarrow> grp, bed_count (snd rb) \<noteq> 0]))
             (group_by (\<lambda>rb. (ra_branch_id (fst rb), b_name (snd rb), record_date (fst rb)))
                [(ra, b). ra \<leftarrow> resource_allocation db, b \<leftarrow> hospital_branches db,
                   b_branch_id b = ra_branch_id ra,
                   date_from \<le> record_date ra, record_date ra \<le> date_to,
                   any_clause branch_ids (ra_branch_id ra)])))"

text \<open>\<open>q_icu\<close>: the same over ICU beds, for branches with \<open>icu_beds > 0\<close>.\<close>

definition alert_icu_rows ::
  "database \<Rightarrow> int list option \<Rightarrow> date \<Rightarrow> date \<Rightarrow> rat \<Rightarrow> ((int \<times> string \<times> date) \<times> rat) list" where
  "alert_icu_rows db branch_ids date_from date_to icu_threshold =
     having_avg_ge icu_threshold
       (map (\<lambda>(k, grp).
              (k, sql_avg [of_int (icu_occupied (fst rb) * 100) / of_int (icu_beds (snd rb)).
                           rb \<leftarrow> grp, icu_beds (snd rb) \<noteq> 0]))
          (group_by (\<lambda>rb. (ra_branch_id (fst rb), b_name (snd rb), record_date (fst rb)))
             [(ra, b). ra \<leftarrow> resource_allocation db, b \<leftarrow> hospital_branches db,
                b_branch_id b = ra_branch_id ra,
                date_from \<le> record_date ra, record_date ra \<le> date_to,
                0 < icu_beds b,
                any_clause branch_ids (ra_branch_id ra)]))"

text \<open>
  \<open>q_doc\<close>: the share of booked slots per doctor in the date range, averaged per branch
  of the doctor's department.
\<close>

definition alert_doc_util :: "database \<Rightarrow> date \<Rightarrow> date \<Rightarrow> (int \<times> rat) list" where
  "alert_doc_util db date_from date_to =
     map (\<lambda>(k, grp).
            (snd k, of_int (count_filter (\<lambda>sd. is_booked (fst sd)) grp * 100)
                      / of_nat (length grp)))
       (group_by (\<lambda>sd. (doc_doctor_id (snd sd), doc_department_id (snd sd)))
          [(ds, doc). ds \<leftarrow> doctor_schedules db, doc \<leftarrow> doctors db,
             doc_doctor_id doc = ds_doctor_id ds,
             date_from \<le> slot_date ds, slot_date ds \<le> date_to])"

definition alert_doc_rows ::
  "database \<Rightarrow> int list option \<Rightarrow> date \<Rightarrow> date \<Rightarrow> rat \<Rightarrow> ((int \<times> string) \<times> rat) list" where
  "alert_doc_rows db branch_ids date_from date_to doc_threshold =
     having_avg_ge doc_threshold
       (map (\<lambda>(k, grp). (k, sql_avg (map (\<lambda>udb. snd (fst udb)) grp)))
          (group_by (\<lambda>udb. (dp_branch_id (fst (snd udb)), b_name (snd (snd udb))))
             [(u, d, b). u \<leftarrow> alert_doc_util db date_from date_to,
                d \<leftarrow> departments db, dp_department_id d = fst u,
                b \<leftarrow> hospital_branches db, b_branch_id b = dp_branch_id d,
                any_clause branch_ids (dp_branch_id d)]))"

text \<open>
  An alert dictionary; the doctor alert has no \<open>record_date\<close>. The \<open>message\<close> text,
  which formats floating-point numbers, is left out; \<open>record_date\<close> is kept as the date
  itself, and \<open>float(r.occ_pct)\<close> as the number it converts.
\<close>

record alert =
  alert_type :: string
  severity :: string
  al_branch_id :: int
  al_branch_name :: string
  al_record_date :: "date option"
  value_pct :: rat
  threshold_pct :: rat

definition get_threshold_alerts ::
  "date \<Rightarrow> database \<Rightarrow> int list option \<Rightarrow> rat \<Rightarrow> rat \<Rightarrow> rat \<Rightarrow> date option \<Rightarrow> date option
     \<Rightarrow> error + alert list" where
  "get_threshold_alerts today db branch_ids bed_occupancy_threshold_pct
       icu_occupancy_threshold_pct doctor_utilization_threshold_pct date_from date_to =
     (let date_to = (case date_to of None \<Rightarrow> today | Some d \<Rightarrow> d);
          date_from = (case date_from of None \<Rightarrow> date_add_days date_to (- 7) | Some d \<Rightarrow> d)
      in case execute db Q_alert_bed
                (alert_bed_rows db branch_ids date_from date_to bed_occupancy_threshold_pct) of
           Inl e \<Rightarrow> Inl e
         | Inr bed \<Rightarrow>
        (case execute db Q_alert_icu
                (alert_icu_rows db branch_ids date_from date_to icu_occupancy_threshold_pct) of
           Inl e \<Rightarrow> Inl e
         | Inr icu \<Rightarrow>
        (case execute db Q_alert_doctor
                (alert_doc_rows db branch_ids date_from date_to
                   doctor_utilization_threshold_pct) of
           Inl e \<Rightarrow> Inl e
         | Inr doc \<Rightarrow>
             Inr (map (\<lambda>((bid, name, dt), v).
                         \<lparr> alert_type = ''high_bed_occupancy'', severity = ''warning'',
                           al_branch_id = bid, al_branch_name = name,
                           al_record_date = Some dt, value_pct = v,
                           threshold_pct = bed_occupancy_threshold_pct \<rparr>) bed
                  @ map (\<lambda>((bid, name, dt), v).
                         \<lparr> alert_type = ''high_icu_utilization'', severity = ''warning'',
                           al_branch_id = bid, al_branch_name = name,
                           al_record_date = Some dt, value_pct = v,
                           threshold_pct = icu_occupancy_threshold_pct \<rparr>) icu
                  @ map (\<lambda>((bid, name), v).
                         \<lparr> alert_type = ''doctor_overutilization'', severity = ''info'',
                           al_branch_id = bid, al_branch_name = name,
                           al_record_date = None, value_pct = v,
                           threshold_pct = doctor_utilization_threshold_pct \<rparr>) doc))))"

section \<open>Bottleneck detector (services/predictions.py, get\_bottlenecks)\<close>

text \<open>
  The two kinds of flag dictionary: \<open>flag_type = "delayed_discharge"\<close> with branch id and
  name, department id and name, \<open>count\<close> and \<open>avg_los_days\<close>; and
  \<open>flag_type = "peak_hour_surplus"\<close> with \<open>hour\<close> and \<open>admissions_count\<close>. The
  \<open>root_cause\<close> text is left out.
\<close>

datatype bottleneck =
    Delayed_discharge int string int string int rat
  | Peak_hour_surplus int int

text \<open>
  \<open>delay_q\<close>: closed episodes of the range staying more than 14 days, joined with
  their branch and department, grouped by both, groups of at least five kept,
  largest first.
\<close>

definition delay_join ::
  "database \<Rightarrow> int list option \<Rightarrow> date \<Rightarrow> date
     \<Rightarrow> ((admission \<times> discharge) \<times> (hospital_branch \<times> department)) list" where
  "delay_join db branch_ids date_from date_to =
     [((a, dis), (b, dp)). a \<leftarrow> admissions db, dis \<leftarrow> discharges db,
        dis_admission_id dis = admission_id a,
        b \<leftarrow> hospital_branches db, b_branch_id b = branch_id a,
        dp \<leftarrow> departments db, dp_department_id dp = department_id a,
        admitted_between date_from date_to (admission_at a),
        14 < los_days (a, dis),
        any_clause branch_ids (branch_id a)]"

definition delay_rows ::
  "database \<Rightarrow> int list option \<Rightarrow> date \<Rightarrow> date
     \<Rightarrow> ((int \<times> string \<times> int \<times> string) \<times> int \<times> rat option) list" where
  "delay_rows db branch_ids date_from date_to =
     sort_key (\<lambda>r. - fst (snd r))
       [(k, int (length grp), sql_avg (map (\<lambda>r. los_days (fst r)) grp)).
          (k, grp) \<leftarrow>
            group_by (\<lambda>r. (branch_id (fst (fst r)), b_name (fst (snd r)),
                           department_id (fst (fst r)), dp_name (snd (snd r))))
              (delay_join db branch_ids date_from date_to),
          5 \<le> length grp]"

text \<open>
  \<open>peak_q\<close>: admissions of the range counted per hour of day; the hours whose count
  exceeds twice \<open>SUM(cnt) / 24.0\<close>, largest first.
\<close>

definition peak_hourly ::
  "database \<Rightarrow> int list option \<Rightarrow> date \<Rightarrow> date \<Rightarrow> (int \<times> int) list" where
  "peak_hourly db branch_ids date_from date_to =
     map (\<lambda>(h, grp). (h, int (length grp)))
       (group_by (\<lambda>a. hour_of (admission_at a))
          [a. a \<leftarrow> admissions db,
             admitted_between date_from date_to (admission_at a),
             any_clause branch_ids (branch_id a)])"

definition peak_rows ::
  "database \<Rightarrow> int list option \<Rightarrow> date \<Rightarrow> date \<Rightarrow> (int \<times> int) list" where
  "peak_rows db branch_ids date_from date_to =
     (let hourly = peak_hourly db branch_ids date_from date_to;
          avg_per_hour = (of_int (sum_list (map snd hourly)) :: rat) / 24
      in sort_key (\<lambda>r. - snd r) [h. h \<leftarrow> hourly, 2 * avg_per_hour < of_int (snd h)])"

text \<open>
  Each statement runs inside \<open>try: ... except Exception: pass\<close>, so a statement that
  raises leaves its flags out. The first \<open>except\<close> does not roll the session back (the
  KPI aggregator does, after every failure): after a failed \<open>delay_q\<close> the transaction
  is aborted, \<open>peak_q\<close> raises as well, and no flag at all is returned.
\<close>

definition get_bottlenecks ::
  "date \<Rightarrow> database \<Rightarrow> int list option \<Rightarrow> date option \<Rightarrow> date option \<Rightarrow> bottleneck list" where
  "get_bottlenecks today db branch_ids date_from date_to =
     (let date_from = (case date_from of None \<Rightarrow> date_add_days today (- 30) | Some d \<Rightarrow> d);
          date_to = (case date_to of None \<Rightarrow> today | Some d \<Rightarrow> d);
          delay = execute db Q_delay (delay_rows db branch_ids date_from date_to);
          peak = (case delay of
                    Inl e \<Rightarrow> Inl e
                  | Inr rows \<Rightarrow> execute db Q_peak (peak_rows db branch_ids date_from date_to))
      in (case delay of
            Inl e \<Rightarrow> []
          | Inr rows \<Rightarrow>
              map (\<lambda>((bid, bname, did, dname), n, avg_los).
                     Delayed_discharge bid bname did dname n
                       (py_round2 (py_float (or_zero avg_los)))) rows)
         @ (case peak of
              Inl e \<Rightarrow> []
            | Inr rows \<Rightarrow> map (\<lambda>(h, cnt). Peak_hour_surplus h cnt) rows))"

section \<open>Invariants of the fact store\<close>

text \<open>
  A readmission row records the days since the discharge of the previous admission: the
  previous admission of every readmission has been discharged.
\<close>

definition readmissions_closed :: "database \<Rightarrow> bool" where
  "readmissions_closed db \<longleftrightarrow>
     (\<forall>r \<in> set (readmissions db). \<exists>d \<in> set (discharges db).
        dis_admission_id d = previous_admission_id r)"

text \<open>
  Branch and department identifiers are primary keys, and an admission refers to an
  existing branch and department.
\<close>

definition keys_consistent :: "database \<Rightarrow> bool" where
  "keys_consistent db \<longleftrightarrow>
     distinct (map b_branch_id (hospital_branches db))
     \<and> distinct (map dp_department_id (departments db))
     \<and> (\<forall>a \<in> set (admissions db).
           branch_id a \<in> set (map b_branch_id (hospital_branches db))
           \<and> department_id a \<in> set (map dp_department_id (departments db)))"

text \<open>Branch identifiers are a primary key of the branch table.\<close>

definition branch_key :: "database \<Rightarrow> bool" where
  "branch_key db \<longleftrightarrow> distinct (map b_branch_id (hospital_branches db))"

section \<open>Notions used in the statements\<close>

text \<open>The name of the branch, and of the department, with a given identifier.\<close>

definition branch_name_of :: "database \<Rightarrow> int \<Rightarrow> string" where
  "branch_name_of db bid =
     (case find (\<lambda>b. b_branch_id b = bid) (hospital_branches db) of
        None \<Rightarrow> [] | Some b \<Rightarrow> b_name b)"

definition department_name_of :: "database \<Rightarrow> int \<Rightarrow> string" where
  "department_name_of db did =
     (case find (\<lambda>dp. dp_department_id dp = did) (departments db) of
        None \<Rightarrow> [] | Some dp \<Rightarrow> dp_name dp)"



text \<open>
  The closed episodes of that range staying more than 14 days, and those of one branch and
  department.
\<close>

definition closed_long_stays ::
  "date \<Rightarrow> database \<Rightarrow> int list option \<Rightarrow> date option \<Rightarrow> date option
     \<Rightarrow> (admission \<times> discharge) list" where
  "closed_long_stays today db branch_ids date_from date_to =
     [(a, dis). a \<leftarrow> admissions db, dis \<leftarrow> discharges db,
        dis_admission_id dis = admission_id a,
        admitted_between
          (case date_from of None \<Rightarrow> date_add_days today (- 30) | Some d \<Rightarrow> d)
          (case date_to of None \<Rightarrow> today | Some d \<Rightarrow> d) (admission_at a),
        14 < los_days (a, dis),
        any_clause branch_ids (branch_id a)]"

definition long_stay_episodes ::
  "date \<Rightarrow> database \<Rightarrow> int list option \<Rightarrow> date option \<Rightarrow> date option \<Rightarrow> int \<Rightarrow> int
     \<Rightarrow> (admission \<times> discharge) list" where
  "long_stay_episodes today db branch_ids date_from date_to bid did =
     filter (\<lambda>e. branch_id (fst e) = bid \<and> department_id (fst e) = did)
       (closed_long_stays today db branch_ids date_from date_to)"

text \<open>The delayed-discharge flags of one branch and department.\<close>

fun is_delayed_for :: "int \<Rightarrow> int \<Rightarrow> bottleneck \<Rightarrow> bool" where
  "is_delayed_for bid did (Delayed_discharge b bn d dn n avg) \<longleftrightarrow> b = bid \<and> d = did"
| "is_delayed_for bid did (Peak_hour_surplus h c) \<longleftrightarrow> False"

text \<open>
  The mean bed occupancy percentage of a branch on a date: the mean over that day's
  snapshots of the branch of occupied beds times 100 over the branch's bed count
  (undefined, \<open>None\<close>, without snapshots or without beds).
\<close>

definition mean_bed_occupancy :: "database \<Rightarrow> int \<Rightarrow> date \<Rightarrow> rat option" where
  "mean_bed_occupancy db bid d =
     sql_avg [of_int (beds_occupied ra * 100) / of_int (bed_count b).
        ra \<leftarrow> resource_allocation db, ra_branch_id ra = bid, record_date ra = d,
        b \<leftarrow> hospital_branches db, b_branch_id b = bid, bed_count b \<noteq> 0]"

text \<open>
  The branch and the date lie in the filtered range of a threshold-alert call (by default
  the seven days up to today).
\<close>

definition alert_in_range ::
  "date \<Rightarrow> int list option \<Rightarrow> date option \<Rightarrow> date option \<Rightarrow> int \<Rightarrow> date \<Rightarrow> bool" where
  "alert_in_range today branch_ids date_from date_to bid d \<longleftrightarrow>
     (let dt = (case date_to of None \<Rightarrow> today | Some x \<Rightarrow> x);
          df = (case date_from of None \<Rightarrow> date_add_days dt (- 7) | Some x \<Rightarrow> x)
      in df \<le> d \<and> d \<le> dt \<and> any_clause branch_ids bid)"

text \<open>The bed-occupancy alerts of one branch and date.\<close>

definition is_bed_alert_for :: "int \<Rightarrow> date \<Rightarrow> alert \<Rightarrow> bool" where
  "is_bed_alert_for bid d al \<longleftrightarrow>
     alert_type al = ''high_bed_occupancy'' \<and> al_branch_id al = bid
     \<and> al_record_date al = Some d"

text \<open>A join of two row lists on a condition, in nested-loop order.\<close>

definition join_on :: "('a \<Rightarrow> 'b \<Rightarrow> bool) \<Rightarrow> 'a list \<Rightarrow> 'b list \<Rightarrow> ('a \<times> 'b) list" where
  "join_on C xs ys = concat (map (\<lambda>x. concat (map (\<lambda>y. if C x y then [(x, y)] else []) ys)) xs)"

text \<open>
  The trailing mean in the words of the specification: the plain mean of the admission
  counts of the series over the \<open>window_days - 1\<close> days before a day and that day.
\<close>

definition spec_trailing_mean :: "(date \<times> int) list \<Rightarrow> int \<Rightarrow> date \<Rightarrow> rat" where
  "spec_trailing_mean series window_days d =
     (let w = [of_int n. (dt, n) \<leftarrow> series,
                 days_from_civil d - (window_days - 1) \<le> days_from_civil dt,
                 days_from_civil dt \<le> days_from_civil d]
      in sum_list w / of_nat (length w))"

text \<open>The number a string of decimal digits denotes.\<close>

definition digits_value :: "string \<Rightarrow> nat" where
  "digits_value s = foldl (\<lambda>a c. 10 * a + (of_char c - 48)) 0 s"

section \<open>Example fact stores\<close>

definition kpi_demo_db :: database where
  "kpi_demo_db =
     \<lparr> admissions =
         [\<lparr> admission_id = 1, branch_id = 1, department_id = 10,
            admission_type = ''Emergency'', admission_at = ((2024, 1, 1), 32400) \<rparr>,
          \<lparr> admission_id = 2, branch_id = 1, department_id = 10,
            admission_type = ''Scheduled'', admission_at = ((2024, 1, 5), 36000) \<rparr>],
       discharges =
         [\<lparr> dis_admission_id = 1, discharge_at = ((2024, 1, 4), 32400),
            outcome_code = ''Recovered'' \<rparr>,
          \<lparr> dis_admission_id = 2, discharge_at = ((2024, 1, 12), 36000),
            outcome_code = ''Deceased'' \<rparr>],
       hospital_branches =
         [\<lparr> b_branch_id = 1, b_name = ''City General Hospital'', bed_count = 200,
            icu_beds = 20, ventilator_count = 15 \<rparr>],
       departments = [\<lparr> dp_department_id = 10, dp_name = ''Cardiology'', dp_branch_id = 1 \<rparr>],
       doctors = [\<lparr> doc_doctor_id = 7, doc_department_id = 10 \<rparr>],
       doctor_schedules =
         [\<lparr> ds_doctor_id = 7, slot_date = (2024, 1, 2), is_booked = True \<rparr>,
          \<lparr> ds_doctor_id = 7, slot_date = (2024, 1, 3), is_booked = False \<rparr>],
       procedures = [\<lparr> p_admission_id = 1 \<rparr>],
       readmissions = [\<lparr> previous_admission_id = 1, new_admission_id = 2 \<rparr>],
       billing = [\<lparr> bl_admission_id = 1, total_amount = 25000 \<rparr>],
       resource_allocation =
         [\<lparr> ra_branch_id = 1, record_date = (2024, 1, 2), record_hour = 9,
            beds_occupied = 150, icu_occupied = 10, ventilators_used = 5 \<rparr>],
       raises = (\<lambda>q. False) \<rparr>"

definition kpi_demo_summary :: kpi_summary where
  "kpi_demo_summary =
     \<lparr> avg_length_of_stay_days = 5, bed_occupancy_rate_pct = 75,
       total_admissions = 2, total_discharges = 2,
       readmission_rate_30d_pct = 50, procedure_volume = 1,
       emergency_cases_count = 1, scheduled_cases_count = 1,
       doctor_utilization_pct = 50, cost_per_discharge_inr = 25000,
       outcome_recovered = 1, outcome_improved = 0, outcome_transferred = 0,
       outcome_deceased = 1, outcome_other = 0 \<rparr>"

text \<open>The same store with every statement other than the core one raising.\<close>

definition kpi_failing_db :: database where
  "kpi_failing_db = kpi_demo_db \<lparr> raises := (\<lambda>q. q \<noteq> Q_kpi_core) \<rparr>"

definition kpi_failing_summary :: kpi_summary where
  "kpi_failing_summary =
     \<lparr> avg_length_of_stay_days = 5, bed_occupancy_rate_pct = 0,
       total_admissions = 2, total_discharges = 2,
       readmission_rate_30d_pct = 0, procedure_volume = 0,
       emergency_cases_count = 1, scheduled_cases_count = 1,
       doctor_utilization_pct = 0, cost_per_discharge_inr = 0,
       outcome_recovered = 1, outcome_improved = 0, outcome_transferred = 0,
       outcome_deceased = 1, outcome_other = 0 \<rparr>"

text \<open>
  Twelve admissions on 2024-03-04 in one branch: two at 9 o'clock and one at each of ten
  other hours; nine of them discharged 15.005 days (fifteen days and 432 seconds) later,
  five in department 10 and four in department 11.
\<close>

definition demo_admission :: "int \<Rightarrow> int \<Rightarrow> nat \<Rightarrow> admission" where
  "demo_admission i dept h =
     \<lparr> admission_id = i, branch_id = 1, department_id = dept,
       admission_type = ''Emergency'', admission_at = ((2024, 3, 4), h * 3600) \<rparr>"

definition demo_discharge :: "int \<Rightarrow> nat \<Rightarrow> discharge" where
  "demo_discharge i h =
     \<lparr> dis_admission_id = i, discharge_at = ((2024, 3, 19), h * 3600 + 432),
       outcome_code = ''Recovered'' \<rparr>"

definition demo_branch :: hospital_branch where
  "demo_branch = \<lparr> b_branch_id = 1, b_name = ''City General Hospital'', bed_count = 200,
            icu_beds = 20, ventilator_count = 15 \<rparr>"

definition demo_dept :: "int \<Rightarrow> string \<Rightarrow> department" where
  "demo_dept i n = \<lparr> dp_department_id = i, dp_name = n, dp_branch_id = 1 \<rparr>"

definition bottleneck_demo_db :: database where
  "bottleneck_demo_db =
     \<lparr> admissions =
         [demo_admission 1 10 9, demo_admission 2 10 9, demo_admission 3 10 0,
          demo_admission 4 10 1, demo_admission 5 10 2, demo_admission 6 11 3,
          demo_admission 7 11 4, demo_admission 8 11 5, demo_admission 9 11 6,
          demo_admission 10 10 7, demo_admission 11 10 8, demo_admission 12 10 10],
       discharges =
         [demo_discharge 1 9, demo_discharge 2 9, demo_discharge 3 0,
          demo_discharge 4 1, demo_discharge 5 2, demo_discharge 6 3,
          demo_discharge 7 4, demo_discharge 8 5, demo_discharge 9 6],
       hospital_branches = [demo_branch],
       departments = [demo_dept 10 ''Cardiology'', demo_dept 11 ''Oncology''],
       doctors = [], doctor_schedules = [], procedures = [], readmissions = [],
       billing = [], resource_allocation = [],
       raises = (\<lambda>q. False) \<rparr>"

text \<open>
  One branch of 200 beds with two snapshots on each of three days: mean occupancy 87.5 on
  2024-03-04, 82.5 on 2024-03-05 and exactly 85 on 2024-03-06.
\<close>

definition demo_snapshot :: "nat \<Rightarrow> int \<Rightarrow> int \<Rightarrow> resource_allocation_row" where
  "demo_snapshot day hour beds =
     \<lparr> ra_branch_id = 1, record_date = (2024, 3, day), record_hour = hour,
       beds_occupied = beds, icu_occupied = 10, ventilators_used = 5 \<rparr>"

definition alert_demo_db :: database where
  "alert_demo_db =
     \<lparr> admissions = [], discharges = [],
       hospital_branches = [demo_branch],
       departments = [demo_dept 10 ''Cardiology''],
       doctors = [], doctor_schedules = [], procedures = [], readmissions = [],
       billing = [],
       resource_allocation =
         [demo_snapshot 4 9 170, demo_snapshot 4 10 180,
          demo_snapshot 5 9 160, demo_snapshot 5 10 170,
          demo_snapshot 6 9 170, demo_snapshot 6 10 170],
       raises = (\<lambda>q. False) \<rparr>"

definition demo_bed_alert :: "nat \<Rightarrow> rat \<Rightarrow> alert" where
  "demo_bed_alert day v =
     \<lparr> alert_type = ''high_bed_occupancy'', severity = ''warning'',
       al_branch_id = 1, al_branch_name = ''City General Hospital'',
       al_record_date = Some (2024, 3, day), value_pct = v, threshold_pct = 85 \<rparr>"

text \<open>
  The first store with two more admissions, only the first of the four discharged, and
  readmissions whose previous admissions are the three open ones.
\<close>

definition kpi_open_db :: database where
  "kpi_open_db =
     kpi_demo_db
       \<lparr> admissions :=
           admissions kpi_demo_db @
           [\<lparr> admission_id = 3, branch_id = 1, department_id = 10,
              admission_type = ''Scheduled'', admission_at = ((2024, 1, 8), 36000) \<rparr>,
            \<lparr> admission_id = 4, branch_id = 1, department_id = 10,
              admission_type = ''Scheduled'', admission_at = ((2024, 1, 9), 36000) \<rparr>],
         discharges :=
           [\<lparr> dis_admission_id = 1, discharge_at = ((2024, 1, 4), 32400),
              outcome_code = ''Recovered'' \<rparr>],
         readmissions :=
           [\<lparr> previous_admission_id = 2, new_admission_id = 3 \<rparr>,
            \<lparr> previous_admission_id = 3, new_admission_id = 4 \<rparr>,
            \<lparr> previous_admission_id = 4, new_admission_id = 5 \<rparr>] \<rparr>"

definition kpi_open_summary :: kpi_summary where
  "kpi_open_summary =
     \<lparr> avg_length_of_stay_days = 3, bed_occupancy_rate_pct = 75,
       total_admissions = 1, total_discharges = 1,
       readmission_rate_30d_pct = 300, procedure_volume = 1,
       emergency_cases_count = 1, scheduled_cases_count = 0,
       doctor_utilization_pct = 50, cost_per_discharge_inr = 25000,
       outcome_recovered = 1, outcome_improved = 0, outcome_transferred = 0,
       outcome_deceased = 0, outcome_other = 0 \<rparr>"

text \<open>
  Eleven admissions at 9 o'clock: one on each day from 2024-03-04 to 2024-03-10 and four on
  2024-03-11; and the series the service returns for them on 2024-03-11.
\<close>

definition demo_admission_on :: "nat \<Rightarrow> int \<Rightarrow> admission" where
  "demo_admission_on day i =
     \<lparr> admission_id = i, branch_id = 1, department_id = 10,
       admission_type = ''Scheduled'', admission_at = ((2024, 3, day), 32400) \<rparr>"

definition ma_demo_db :: database where
  "ma_demo_db =
     \<lparr> admissions =
         [demo_admission_on 4 1, demo_admission_on 5 2, demo_admission_on 6 3,
          demo_admission_on 7 4, demo_admission_on 8 5, demo_admission_on 9 6,
          demo_admission_on 10 7, demo_admission_on 11 8, demo_admission_on 11 9,
          demo_admission_on 11 10, demo_admission_on 11 11],
       discharges = [], hospital_branches = [demo_branch],
       departments = [demo_dept 10 ''Cardiology''],
       doctors = [], doctor_schedules = [], procedures = [], readmissions = [],
       billing = [], resource_allocation = [],
       raises = (\<lambda>q. False) \<rparr>"

definition ma_point_of :: "nat \<Rightarrow> int \<Rightarrow> rat \<Rightarrow> ma_point" where
  "ma_point_of day n avg =
     \<lparr> ma_date = (2024, 3, day), ma_admissions = n, moving_avg_7d = avg \<rparr>"

definition ma_demo_points :: "ma_point list" where
  "ma_demo_points =
     [ma_point_of 4 1 1, ma_point_of 5 1 1, ma_point_of 6 1 1, ma_point_of 7 1 1,
      ma_point_of 8 1 1, ma_point_of 9 1 1, ma_point_of 10 1 1,
      ma_point_of 11 4 (6440147467139809 / 4503599627370496)]"

text \<open>
  Four closed episodes, stored out of chronological order: two in February 2024, one in
  May 2024 and one in November 2023; and the quarterly trend the service returns for them.
\<close>

definition demo_episode_adm :: "int \<Rightarrow> date \<Rightarrow> admission" where
  "demo_episode_adm i d =
     \<lparr> admission_id = i, branch_id = 1, department_id = 10,
       admission_type = ''Scheduled'', admission_at = (d, 32400) \<rparr>"

definition demo_episode_dis :: "int \<Rightarrow> date \<Rightarrow> discharge" where
  "demo_episode_dis i d =
     \<lparr> dis_admission_id = i, discharge_at = (d, 32400), outcome_code = ''Recovered'' \<rparr>"

definition trend_demo_db :: database where
  "trend_demo_db =
     \<lparr> admissions =
         [demo_episode_adm 1 (2024, 5, 10), demo_episode_adm 2 (2024, 2, 15),
          demo_episode_adm 3 (2023, 11, 30), demo_episode_adm 4 (2024, 2, 20)],
       discharges =
         [demo_episode_dis 1 (2024, 5, 12), demo_episode_dis 2 (2024, 2, 18),
          demo_episode_dis 3 (2023, 12, 2), demo_episode_dis 4 (2024, 2, 25)],
       hospital_branches = [demo_branch],
       departments = [demo_dept 10 ''Cardiology''],
       doctors = [], doctor_schedules = [], procedures = [], readmissions = [],
       billing = [], resource_allocation = [],
       raises = (\<lambda>q. False) \<rparr>"

definition trend_point_of :: "string \<Rightarrow> date \<Rightarrow> int \<Rightarrow> rat \<Rightarrow> trend_point" where
  "trend_point_of label d n los =
     \<lparr> period = label, period_dt = d, tp_admissions = n, tp_discharges = n,
       tp_avg_los_days = los, tp_occupancy_pct = 0 \<rparr>"

definition trend_demo_quarters :: "trend_point list" where
  "trend_demo_quarters =
     [trend_point_of ''2023-4'' (2023, 10, 1) 1 2,
      trend_point_of ''2024-1'' (2024, 1, 1) 2 4,
      trend_point_of ''2024-2'' (2024, 4, 1) 1 2]"

section \<open>Properties of floats and rounding\<close>

lemma round_half_even_of_int [simp]: "round_half_even (of_int n) = n"
  by (simp add: round_half_even_def)

lemma round_half_even_nonneg: "0 \<le> y \<Longrightarrow> 0 \<le> round_half_even y"
  by (auto simp: round_half_even_def Let_def)

lemma round_half_even_le_int:
  assumes "y \<le> of_int n"
  shows "round_half_even y \<le> n"
proof -
  have f: "\<lfloor>y\<rfloor> \<le> n" using assms by (simp add: floor_le_iff)
  have "\<lfloor>y\<rfloor> + 1 \<le> n" if "of_int \<lfloor>y\<rfloor> < y"
  proof -
    from that assms have "of_int \<lfloor>y\<rfloor> < (of_int n :: rat)" by linarith
    then show ?thesis by simp
  qed
  moreover have "y - of_int \<lfloor>y\<rfloor> < 1 / 2 \<or> of_int \<lfloor>y\<rfloor> < y" by linarith
  ultimately show ?thesis
    using f by (auto simp: round_half_even_def Let_def)
qed

lemma ilog2_bounds:
  assumes "0 < x"
  shows "2 powi (ilog2 x) \<le> x \<and> x < 2 powi (ilog2 x + 1)"
proof (cases "1 \<le> x")
  case True
  define n where "n = \<lfloor>x\<rfloor>"
  have n: "0 < n" using True by (simp add: n_def)
  have b: "1 \<le> bitlen n" using n by (simp add: bitlen_alt_def)
  from bitlen_bounds [OF n] have lo: "2 ^ nat (bitlen n - 1) \<le> n" and hi: "n < 2 ^ nat (bitlen n)"
    by auto
  have "(2::rat) powi (bitlen n - 1) = of_int (2 ^ nat (bitlen n - 1))"
    using b by (simp add: power_int_def)
  also have "\<dots> \<le> of_int n" using lo by (simp only: of_int_le_iff)
  also have "\<dots> \<le> x" by (simp add: n_def)
  finally have 1: "2 powi (bitlen n - 1) \<le> x" .
  have "n + 1 \<le> 2 ^ nat (bitlen n)" using hi by simp
  then have "(of_int (n + 1) :: rat) \<le> of_int (2 ^ nat (bitlen n))" by (simp only: of_int_le_iff)
  moreover have "x < of_int (n + 1)" unfolding n_def by linarith
  ultimately have "x < of_int (2 ^ nat (bitlen n))" by linarith
  also have "\<dots> = 2 powi (bitlen n - 1 + 1)" using b by (simp add: power_int_def)
  finally have 2: "x < 2 powi (bitlen n - 1 + 1)" .
  from 1 2 True show ?thesis by (simp add: ilog2_def n_def)
next
  case False
  define y where "y = 1 / x"
  define n where "n = \<lceil>y\<rceil> - 1"
  have y1: "1 < y" using False assms by (simp add: y_def)
  have n: "0 < n" using y1 unfolding n_def by linarith
  have b: "1 \<le> bitlen n" using n by (simp add: bitlen_alt_def)
  from bitlen_bounds [OF n] have lo: "2 ^ nat (bitlen n - 1) \<le> n" and hi: "n < 2 ^ nat (bitlen n)"
    by auto
  have yle: "y \<le> of_int (n + 1)" unfolding n_def by linarith
  have ygt: "of_int n < y" unfolding n_def by linarith
  have "n + 1 \<le> 2 ^ nat (bitlen n)" using hi by simp
  then have "(of_int (n + 1) :: rat) \<le> of_int (2 ^ nat (bitlen n))" by (simp only: of_int_le_iff)
  with yle have "y \<le> of_int (2 ^ nat (bitlen n))" by linarith
  also have "\<dots> = 2 powi (bitlen n)" using b by (simp add: power_int_def)
  finally have "y \<le> 2 powi (bitlen n)" .
  then have "1 \<le> x * 2 powi (bitlen n)"
    using assms by (simp add: y_def field_simps)
  moreover have "(2::rat) powi (- bitlen n) * 2 powi (bitlen n) = 1"
    by (simp flip: power_int_add)
  ultimately have "2 powi (- bitlen n) * 2 powi (bitlen n) \<le> x * 2 powi (bitlen n)"
    by simp
  then have 1: "2 powi (- bitlen n) \<le> x"
    by (simp only: mult_le_cancel_right_pos zero_less_power_int zero_less_numeral)
  have "(2::rat) powi (bitlen n - 1) = of_int (2 ^ nat (bitlen n - 1))"
    using b by (simp add: power_int_def)
  also have "\<dots> \<le> of_int n" using lo by (simp only: of_int_le_iff)
  also have "\<dots> < y" by (rule ygt)
  finally have "2 powi (bitlen n - 1) < y" .
  then have xp: "x * 2 powi (bitlen n - 1) < 1"
    using assms by (simp add: y_def field_simps)
  have P: "0 < (2::rat) powi (bitlen n - 1)" by simp
  have "(2::rat) powi (- bitlen n + 1) * 2 powi (bitlen n - 1) = 1"
    by (simp flip: power_int_add)
  with xp have "x * 2 powi (bitlen n - 1) < 2 powi (- bitlen n + 1) * 2 powi (bitlen n - 1)"
    by simp
  then have 2: "x < 2 powi (- bitlen n + 1)"
    using P by (simp only: mult_less_cancel_right_pos)
  from 1 2 False show ?thesis by (simp add: ilog2_def n_def y_def)
qed

lemma powi2_less_imp:
  assumes "(2::rat) powi a < 2 powi b"
  shows "a < b"
proof (rule ccontr)
  assume "\<not> a < b"
  then have "b \<le> a" by simp
  then have "(2::rat) powi b \<le> 2 powi a" by (rule power_int_increasing) simp
  with assms show False by simp
qed

lemma powi2_le_imp:
  assumes "(2::rat) powi a \<le> 2 powi b"
  shows "a \<le> b"
proof (rule ccontr)
  assume "\<not> a \<le> b"
  then have "b < a" by simp
  then have "(2::rat) powi b < 2 powi a" by (rule power_int_strict_increasing) simp
  with assms show False by simp
qed

lemma ilog2_eqI:
  assumes "0 < x" "2 powi k \<le> x" "x < 2 powi (k + 1)"
  shows "ilog2 x = k"
proof -
  from ilog2_bounds [OF assms(1)]
  have a: "2 powi (ilog2 x) \<le> x" and b: "x < 2 powi (ilog2 x + 1)" by auto
  have "(2::rat) powi k < 2 powi (ilog2 x + 1)" using assms(2) b by linarith
  then have "k < ilog2 x + 1" by (rule powi2_less_imp)
  moreover have "(2::rat) powi (ilog2 x) < 2 powi (k + 1)" using a assms(3) by linarith
  then have "ilog2 x < k + 1" by (rule powi2_less_imp)
  ultimately show ?thesis by simp
qed

lemma py_float_zero [simp]: "py_float 0 = 0"
  by (simp add: py_float_def)

lemma py_round2_zero [simp]: "py_round2 0 = 0"
  by (simp add: py_round2_def round_half_even_def)

lemma py_float_eqI:
  assumes "0 < x" "2 powi k \<le> x" "x < 2 powi (k + 1)"
    and "round_half_even (x / 2 powi (k - 52)) = m"
  shows "py_float x = of_int m * 2 powi (k - 52)"
  using assms(1,4) ilog2_eqI [OF assms(1-3)]
  by (simp add: py_float_def Let_def)

lemma py_float_nonneg: "0 \<le> x \<Longrightarrow> 0 \<le> py_float x"
proof -
  assume x: "0 \<le> x"
  have "0 \<le> round_half_even (\<bar>x\<bar> / 2 powi (ilog2 \<bar>x\<bar> - 52))"
    by (rule round_half_even_nonneg) simp
  then show ?thesis
    using x by (simp add: py_float_def Let_def)
qed

text \<open>
  Conversion does not cross a number that is a multiple of the spacing of the doubles
  around the argument.
\<close>

lemma py_float_le:
  assumes "0 < x" "x \<le> y" "y / 2 powi (ilog2 x - 52) = of_int n"
  shows "py_float x \<le> y"
proof -
  let ?E = "(2::rat) powi (ilog2 x - 52)"
  have E: "0 < ?E" by simp
  have "x / ?E \<le> y / ?E" using assms(2) E by (simp add: divide_right_mono)
  then have "round_half_even (x / ?E) \<le> n"
    unfolding assms(3) by (rule round_half_even_le_int)
  then have "(of_int (round_half_even (x / ?E)) :: rat) \<le> of_int n"
    by (simp only: of_int_le_iff)
  then have "of_int (round_half_even (x / ?E)) * ?E \<le> of_int n * ?E"
    using E by (simp add: mult_right_mono)
  also have "of_int n * ?E = y"
    using assms(3) E by (simp add: field_simps)
  finally show ?thesis
    using assms(1) by (simp add: py_float_def Let_def)
qed

lemma py_float_le_one:
  assumes "0 \<le> x" "x \<le> 1"
  shows "py_float x \<le> 1"
proof (cases "x = 0")
  case True
  then show ?thesis by simp
next
  case False
  with assms have x: "0 < x" by simp
  from ilog2_bounds [OF x] assms(2) have "(2::rat) powi (ilog2 x) \<le> 2 powi 0" by simp
  then have k: "ilog2 x \<le> 0" by (rule powi2_le_imp)
  have "(1::rat) / 2 powi (ilog2 x - 52) = of_int (2 ^ nat (52 - ilog2 x))"
    using k by (simp add: power_int_def nat_diff_distrib' field_simps)
  with x assms(2) show ?thesis by (rule py_float_le)
qed

lemma py_float_le_100:
  assumes "0 \<le> x" "x \<le> 100"
  shows "py_float x \<le> 100"
proof (cases "x = 0")
  case True
  then show ?thesis by simp
next
  case False
  with assms have x: "0 < x" by simp
  from ilog2_bounds [OF x] assms(2) have "(2::rat) powi (ilog2 x) < 2 powi 7" by simp
  then have k: "ilog2 x < 7" by (rule powi2_less_imp)
  have "(100::rat) / 2 powi (ilog2 x - 52) = of_int (100 * 2 ^ nat (52 - ilog2 x))"
    using k by (simp add: power_int_def nat_diff_distrib' field_simps)
  with x assms(2) show ?thesis by (rule py_float_le)
qed

lemma py_round2_bounds:
  assumes "0 \<le> x" "x \<le> 100"
  shows "0 \<le> py_round2 x \<and> py_round2 x \<le> 100"
proof -
  have "0 \<le> round_half_even (x * 100)"
    using assms(1) by (intro round_half_even_nonneg) simp
  moreover have "round_half_even (x * 100) \<le> 10000"
    using assms(2) by (intro round_half_even_le_int) simp
  ultimately show ?thesis
    by (simp add: py_round2_def divide_le_eq le_divide_eq)
qed

lemma round_half_even_eqI:
  assumes "of_int m - 1 / 2 < y" "y < of_int m + 1 / 2"
  shows "round_half_even y = m"
proof (cases "of_int m \<le> y")
  case True
  have f: "\<lfloor>y\<rfloor> = m" by (rule floor_unique) (use True assms in linarith)+
  show ?thesis using assms by (simp add: round_half_even_def Let_def f)
next
  case False
  have f: "\<lfloor>y\<rfloor> = m - 1" by (rule floor_unique) (use False assms in simp_all)
  show ?thesis using assms False by (simp add: round_half_even_def Let_def f)
qed

text \<open>The double nearest to 15.005 lies above it.\<close>

lemma py_round2_float_15005: "py_round2 (py_float (15005 / 1000)) = 1501 / 100"
proof -
  have r: "round_half_even ((15005 / 1000) / 2 powi (3 - 52)) = 8447064051086787"
    by (rule round_half_even_eqI) (simp_all add: power_int_minus)
  have f: "py_float (15005 / 1000) = of_int 8447064051086787 * 2 powi (3 - 52)"
    by (rule py_float_eqI [OF _ _ _ r]) simp_all
  have "round_half_even (py_float (15005 / 1000) * 100) = 1501"
    unfolding f by (rule round_half_even_eqI) (simp_all add: power_int_minus)
  then show ?thesis
    unfolding py_round2_def by simp
qed

lemma py_float_exact:
  assumes "0 < x" "x / 2 powi (ilog2 x - 52) = of_int n"
  shows "py_float x = x"
proof -
  have "py_float x = of_int n * 2 powi (ilog2 x - 52)"
    using assms by (simp add: py_float_def Let_def)
  also have "\<dots> = x"
    using assms(2) by (simp add: field_simps)
  finally show ?thesis .
qed

text \<open>Integers below \<open>2 ^ 53\<close> are doubles.\<close>

lemma py_float_of_nat:
  assumes "n < 2 ^ 53"
  shows "py_float (of_nat n) = of_nat n"
proof (cases "n = 0")
  case True
  then show ?thesis by simp
next
  case False
  then have x: "0 < (of_nat n :: rat)" by simp
  from ilog2_bounds [OF x] have "(2::rat) powi (ilog2 (of_nat n)) \<le> of_nat n" by simp
  also have "\<dots> < of_nat (2 ^ 53)" using assms by (simp only: of_nat_less_iff)
  also have "\<dots> = 2 powi 53" by simp
  finally have "ilog2 (of_nat n :: rat) < 53" by (rule powi2_less_imp)
  then have "(of_nat n :: rat) / 2 powi (ilog2 (of_nat n :: rat) - 52)
             = of_int (int n * 2 ^ nat (52 - ilog2 (of_nat n :: rat)))"
    by (simp add: power_int_def nat_diff_distrib' field_simps)
  with x show ?thesis by (rule py_float_exact)
qed

lemma py_float_numeral [simp]:
  "numeral w < (2 :: nat) ^ 53 \<Longrightarrow> py_float (numeral w) = numeral w"
  using py_float_of_nat [of "numeral w"] by simp

lemma py_float_one [simp]: "py_float 1 = 1"
  using py_float_of_nat [of 1] by simp

lemma py_float_half: "py_float (1 / 2) = 1 / 2"
proof -
  have "round_half_even ((1 / 2) / 2 powi (- 1 - 52)) = 2 ^ 52"
    by (rule round_half_even_eqI) (simp_all add: power_int_minus)
  then have "py_float (1 / 2) = of_int (2 ^ 52) * 2 powi (- 1 - 52)"
    by (intro py_float_eqI) (simp_all add: power_int_minus)
  then show ?thesis by (simp add: power_int_minus)
qed

lemma py_round2_of_nat: "py_round2 (of_nat n) = of_nat n"
proof -
  have "(of_nat n :: rat) * 100 = of_int (int n * 100)" by simp
  then have "round_half_even (of_nat n * 100) = int n * 100"
    by (simp only: round_half_even_of_int)
  then show ?thesis by (simp add: py_round2_def)
qed

lemma py_round2_numeral [simp]: "py_round2 (numeral w) = numeral w"
  using py_round2_of_nat [of "numeral w"] by simp

section \<open>Properties of the KPI aggregator\<close>

lemmas date_defs = admitted_between_def midnight_def days_in_month_def is_leap_def
  any_clause_def epoch_def hour_of_def year_of_def month_of_def day_of_def date_add_days_def

lemmas kpi_defs = get_kpi_summary_def execute_def guarded_def kpi_core_def kpi_adm_def
  kpi_where_def kpi_proc_count_def kpi_readm_count_def kpi_bed_occ_def
  kpi_doc_util_def kpi_util_rows_def kpi_cost_per_def count_filter_def sql_avg_def
  or_zero_def los_days_def Let_def

lemma outcome_partition:
  "count_filter (\<lambda>e. outcome_code (snd e) = ''Recovered'') xs
   + count_filter (\<lambda>e. outcome_code (snd e) = ''Improved'') xs
   + count_filter (\<lambda>e. outcome_code (snd e) = ''Transferred'') xs
   + count_filter (\<lambda>e. outcome_code (snd e) = ''Deceased'') xs
   + count_filter (\<lambda>e. outcome_code (snd e) \<notin>
        set [''Recovered'', ''Improved'', ''Transferred'', ''Deceased'']) xs
   = int (length xs)"
  by (induction xs) (auto simp: count_filter_def)

lemma kpi_demo_run:
  "get_kpi_summary kpi_demo_db (Some [1]) None (Some (2024, 1, 1)) (Some (2024, 1, 31))
     = Inr kpi_demo_summary"
  by (simp add: kpi_defs date_defs kpi_demo_db_def kpi_demo_summary_def py_float_half)

lemma kpi_demo_empty_cohort:
  "kpi_adm kpi_demo_db (Some [99]) None None None = []"
  by (simp add: kpi_adm_def kpi_where_def any_clause_def kpi_demo_db_def)

lemma kpi_failing_run:
  "get_kpi_summary kpi_failing_db (Some [1]) None (Some (2024, 1, 1)) (Some (2024, 1, 31))
     = Inr kpi_failing_summary"
  by (simp add: kpi_defs date_defs kpi_demo_db_def kpi_failing_db_def kpi_failing_summary_def)

text \<open>
  What a returned summary is made of: the core statement did not raise, and either the
  cohort is empty and the summary is the all-zero one, or the discharge count is the
  number of closed episodes and the readmission rate is the rounded ratio.
\<close>

lemma kpi_summary_cases:
  assumes "get_kpi_summary db branch_ids department_ids date_from date_to = Inr k"
  shows "\<not> raises db Q_kpi_core \<and>
         (kpi_adm db branch_ids department_ids date_from date_to = [] \<and> k = empty_kpi
          \<or> kpi_adm db branch_ids department_ids date_from date_to \<noteq> []
            \<and> total_discharges k
                = int (length (kpi_adm db branch_ids department_ids date_from date_to))
            \<and> readmission_rate_30d_pct k
                = py_round2 (py_float (py_float
                    (of_int (guarded db Q_kpi_readmissions 0
                       (kpi_readm_count db branch_ids department_ids date_from date_to))
                     / of_int (int (length
                         (kpi_adm db branch_ids department_ids date_from date_to))))
                   * 100)))"
proof (cases "raises db Q_kpi_core")
  case True
  with assms show ?thesis by (simp add: get_kpi_summary_def execute_def)
next
  case False
  show ?thesis
  proof (cases "kpi_adm db branch_ids department_ids date_from date_to = []")
    case True
    with False assms show ?thesis
      by (simp add: get_kpi_summary_def execute_def kpi_core_def)
  next
    case ne: False
    with False assms show ?thesis
      by (auto simp add: get_kpi_summary_def execute_def kpi_core_def Let_def)
  qed
qed

text \<open>
  Every distinct previous admission counted by the readmission statement is the admission
  of a closed episode of the cohort, when readmissions refer to discharged admissions.
\<close>

lemma readm_count_le:
  assumes "readmissions_closed db"
  shows "kpi_readm_count db branch_ids department_ids date_from date_to
           \<le> int (length (kpi_adm db branch_ids department_ids date_from date_to))"
proof -
  let ?W = "kpi_where branch_ids department_ids date_from date_to"
  let ?ids = "[previous_admission_id r. r \<leftarrow> readmissions db, a \<leftarrow> admissions db,
                 admission_id a = previous_admission_id r, ?W a]"
  let ?adm = "kpi_adm db branch_ids department_ids date_from date_to"
  have sub: "set ?ids \<subseteq> (\<lambda>e. admission_id (fst e)) ` set ?adm"
  proof
    fix p assume "p \<in> set ?ids"
    then obtain r a where r: "r \<in> set (readmissions db)" and a: "a \<in> set (admissions db)"
      and eq: "admission_id a = previous_admission_id r" and w: "?W a"
      and p: "p = previous_admission_id r"
      by auto
    from assms r obtain d where d: "d \<in> set (discharges db)"
      and de: "dis_admission_id d = previous_admission_id r"
      unfolding readmissions_closed_def by blast
    have "(a, d) \<in> set ?adm"
      using a d de eq w by (auto simp: kpi_adm_def)
    then show "p \<in> (\<lambda>e. admission_id (fst e)) ` set ?adm"
      using p eq by force
  qed
  have "length (remdups ?ids) = card (set ?ids)"
    by (simp add: length_remdups_card_conv)
  also have "\<dots> \<le> card ((\<lambda>e. admission_id (fst e)) ` set ?adm)"
    using sub by (intro card_mono) auto
  also have "\<dots> \<le> card (set ?adm)"
    by (rule card_image_le) simp
  also have "\<dots> \<le> length ?adm"
    by (rule card_length)
  finally show ?thesis
    by (simp add: kpi_readm_count_def)
qed

text \<open>
  C2. Whenever \<open>get_kpi_summary\<close> returns a summary, for any filter, the five outcome
  counts add up to the discharge count.
\<close>

theorem kpi_outcomes_sum:
  assumes "get_kpi_summary db branch_ids department_ids date_from date_to = Inr k"
  shows "outcome_recovered k + outcome_improved k + outcome_transferred k
           + outcome_deceased k + outcome_other k = total_discharges k"
proof (cases "raises db Q_kpi_core")
  case True
  with assms show ?thesis by (simp add: get_kpi_summary_def execute_def)
next
  case False
  show ?thesis
  proof (cases "kpi_adm db branch_ids department_ids date_from date_to = []")
    case True
    with False assms have "k = empty_kpi"
      by (simp add: get_kpi_summary_def execute_def kpi_core_def)
    then show ?thesis by (simp add: empty_kpi_def)
  next
    case ne: False
    with False assms show ?thesis
      using outcome_partition [of "kpi_adm db branch_ids department_ids date_from date_to"]
      by (auto simp add: get_kpi_summary_def execute_def kpi_core_def Let_def)
  qed
qed

theorem kpi_outcomes_sum_witness:
  "get_kpi_summary kpi_demo_db (Some [1]) None (Some (2024, 1, 1)) (Some (2024, 1, 31))
     = Inr kpi_demo_summary
   \<and> outcome_recovered kpi_demo_summary + outcome_improved kpi_demo_summary
       + outcome_transferred kpi_demo_summary + outcome_deceased kpi_demo_summary
       + outcome_other kpi_demo_summary = total_discharges kpi_demo_summary"
  by (rule conjI [OF kpi_demo_run kpi_outcomes_sum [OF kpi_demo_run]])

text \<open>
  C3. When the core statement executes and no closed episode matches the filter,
  \<open>get_kpi_summary\<close> returns (it does not raise) the summary whose fifteen fields are
  all zero.
\<close>

theorem kpi_empty_cohort:
  assumes "\<not> raises db Q_kpi_core"
    and "kpi_adm db branch_ids department_ids date_from date_to = []"
  shows "get_kpi_summary db branch_ids department_ids date_from date_to =
           Inr \<lparr> avg_length_of_stay_days = 0, bed_occupancy_rate_pct = 0,
                 total_admissions = 0, total_discharges = 0,
                 readmission_rate_30d_pct = 0, procedure_volume = 0,
                 emergency_cases_count = 0, scheduled_cases_count = 0,
                 doctor_utilization_pct = 0, cost_per_discharge_inr = 0,
                 outcome_recovered = 0, outcome_improved = 0, outcome_transferred = 0,
                 outcome_deceased = 0, outcome_other = 0 \<rparr>"
  using assms by (simp add: get_kpi_summary_def execute_def kpi_core_def empty_kpi_def)

theorem kpi_empty_cohort_witness:
  "\<not> raises kpi_demo_db Q_kpi_core
   \<and> kpi_adm kpi_demo_db (Some [99]) None None None = []
   \<and> get_kpi_summary kpi_demo_db (Some [99]) None None None =
           Inr \<lparr> avg_length_of_stay_days = 0, bed_occupancy_rate_pct = 0,
                 total_admissions = 0, total_discharges = 0,
                 readmission_rate_30d_pct = 0, procedure_volume = 0,
                 emergency_cases_count = 0, scheduled_cases_count = 0,
                 doctor_utilization_pct = 0, cost_per_discharge_inr = 0,
                 outcome_recovered = 0, outcome_improved = 0, outcome_transferred = 0,
                 outcome_deceased = 0, outcome_other = 0 \<rparr>"
proof -
  have r: "\<not> raises kpi_demo_db Q_kpi_core" by (simp add: kpi_demo_db_def)
  show ?thesis
    by (intro conjI r kpi_demo_empty_cohort kpi_empty_cohort [OF r kpi_demo_empty_cohort])
qed

text \<open>
  C4. When the core statement executes and at least one closed episode matches, a summary
  is returned whichever of the five secondary statements raise, and the field of each
  one that raises is zero: procedure volume, readmission rate, bed occupancy, doctor
  utilisation, cost per discharge.
\<close>

theorem kpi_secondary_failures_absorbed:
  assumes "\<not> raises db Q_kpi_core"
    and "kpi_adm db branch_ids department_ids date_from date_to \<noteq> []"
  shows "\<exists>k. get_kpi_summary db branch_ids department_ids date_from date_to = Inr k
           \<and> (raises db Q_kpi_procedures \<longrightarrow> procedure_volume k = 0)
           \<and> (raises db Q_kpi_readmissions \<longrightarrow> readmission_rate_30d_pct k = 0)
           \<and> (raises db Q_kpi_occupancy \<longrightarrow> bed_occupancy_rate_pct k = 0)
           \<and> (raises db Q_kpi_utilization \<longrightarrow> doctor_utilization_pct k = 0)
           \<and> (raises db Q_kpi_cost \<longrightarrow> cost_per_discharge_inr k = 0)"
  using assms
  by (simp add: get_kpi_summary_def execute_def guarded_def kpi_core_def Let_def py_round2_zero)

theorem kpi_secondary_failures_absorbed_witness:
  "\<not> raises kpi_failing_db Q_kpi_core
   \<and> kpi_adm kpi_failing_db (Some [1]) None (Some (2024, 1, 1)) (Some (2024, 1, 31)) \<noteq> []
   \<and> raises kpi_failing_db Q_kpi_procedures \<and> raises kpi_failing_db Q_kpi_readmissions
   \<and> raises kpi_failing_db Q_kpi_occupancy \<and> raises kpi_failing_db Q_kpi_utilization
   \<and> raises kpi_failing_db Q_kpi_cost
   \<and> get_kpi_summary kpi_failing_db (Some [1]) None (Some (2024, 1, 1)) (Some (2024, 1, 31))
       = Inr kpi_failing_summary
   \<and> procedure_volume kpi_failing_summary = 0
   \<and> readmission_rate_30d_pct kpi_failing_summary = 0
   \<and> bed_occupancy_rate_pct kpi_failing_summary = 0
   \<and> doctor_utilization_pct kpi_failing_summary = 0
   \<and> cost_per_discharge_inr kpi_failing_summary = 0"
proof -
  have r: "\<not> raises kpi_failing_db Q_kpi_core"
    by (simp add: kpi_failing_db_def)
  have ne: "kpi_adm kpi_failing_db (Some [1]) None (Some (2024, 1, 1)) (Some (2024, 1, 31)) \<noteq> []"
    by (simp add: kpi_adm_def kpi_where_def date_defs kpi_failing_db_def kpi_demo_db_def)
  have f: "raises kpi_failing_db Q_kpi_procedures" "raises kpi_failing_db Q_kpi_readmissions"
    "raises kpi_failing_db Q_kpi_occupancy" "raises kpi_failing_db Q_kpi_utilization"
    "raises kpi_failing_db Q_kpi_cost"
    by (simp_all add: kpi_failing_db_def)
  from kpi_secondary_failures_absorbed [OF r ne] f kpi_failing_run
  have "procedure_volume kpi_failing_summary = 0
      \<and> readmission_rate_30d_pct kpi_failing_summary = 0
      \<and> bed_occupancy_rate_pct kpi_failing_summary = 0
      \<and> doctor_utilization_pct kpi_failing_summary = 0
      \<and> cost_per_discharge_inr kpi_failing_summary = 0"
    by auto
  with r ne f kpi_failing_run show ?thesis by simp
qed

lemma kpi_open_run:
  "get_kpi_summary kpi_open_db None None None None = Inr kpi_open_summary"
  by (simp add: kpi_defs date_defs kpi_open_db_def kpi_demo_db_def kpi_open_summary_def)

text \<open>
  C8, as stated, fails: the readmission statement counts previous admissions among the
  admissions of the cohort, discharged or not, and the rate divides by the discharges.
  With one discharge and three readmissions whose previous admissions are still open
  the rate is 300.
\<close>

theorem kpi_readmission_rate_counterexample:
  "get_kpi_summary kpi_open_db None None None None = Inr kpi_open_summary
   \<and> total_discharges kpi_open_summary = 1
   \<and> readmission_rate_30d_pct kpi_open_summary = 300
   \<and> \<not> readmission_rate_30d_pct kpi_open_summary \<le> 100"
  using kpi_open_run by (simp add: kpi_open_summary_def)

text \<open>
  C8, amended. The readmission rate of every returned summary is at least 0, and it is 0
  when the discharge count is 0; in a store whose readmissions refer to discharged
  admissions it is at most 100.
\<close>

theorem kpi_readmission_rate_range:
  assumes "get_kpi_summary db branch_ids department_ids date_from date_to = Inr k"
  shows "0 \<le> readmission_rate_30d_pct k
         \<and> (total_discharges k = 0 \<longrightarrow> readmission_rate_30d_pct k = 0)
         \<and> (readmissions_closed db \<longrightarrow> readmission_rate_30d_pct k \<le> 100)"
proof -
  let ?adm = "kpi_adm db branch_ids department_ids date_from date_to"
  let ?c = "guarded db Q_kpi_readmissions 0
              (kpi_readm_count db branch_ids department_ids date_from date_to)"
  let ?q = "(of_int ?c :: rat) / of_int (int (length ?adm))"
  from kpi_summary_cases [OF assms]
  consider (empty) "k = empty_kpi"
    | (some) "?adm \<noteq> []" "total_discharges k = int (length ?adm)"
        "readmission_rate_30d_pct k = py_round2 (py_float (py_float ?q * 100))"
    by blast
  then show ?thesis
  proof cases
    case empty
    then show ?thesis by (simp add: empty_kpi_def)
  next
    case some
    have n: "0 < length ?adm" using some(1) by simp
    have c0: "0 \<le> ?c"
      by (simp add: guarded_def execute_def kpi_readm_count_def)
    have q0: "0 \<le> ?q" using c0 by simp
    have f0: "0 \<le> py_float (py_float ?q * 100)"
      by (intro py_float_nonneg mult_nonneg_nonneg q0) simp
    have nonneg: "0 \<le> readmission_rate_30d_pct k"
      unfolding some(3) py_round2_def
      using round_half_even_nonneg [of "py_float (py_float ?q * 100) * 100"] f0 by simp
    have upper: "readmission_rate_30d_pct k \<le> 100" if closed: "readmissions_closed db"
    proof -
      have c1: "?c \<le> int (length ?adm)"
        using readm_count_le [OF closed, of branch_ids department_ids date_from date_to] n
        by (simp add: guarded_def execute_def)
      then have "(of_int ?c :: rat) \<le> of_int (int (length ?adm))"
        by (simp only: of_int_le_iff)
      then have q1: "?q \<le> 1" using n by (simp add: divide_le_eq)
      have "py_float ?q \<le> 1" using q0 q1 by (rule py_float_le_one)
      moreover have "0 \<le> py_float ?q" using q0 by (rule py_float_nonneg)
      ultimately have "0 \<le> py_float ?q * 100" "py_float ?q * 100 \<le> 100" by simp_all
      then have "py_float (py_float ?q * 100) \<le> 100" by (rule py_float_le_100)
      with f0 show ?thesis
        unfolding some(3) using py_round2_bounds by blast
    qed
    have "total_discharges k \<noteq> 0" using some(2) n by simp
    with nonneg upper show ?thesis by simp
  qed
qed

theorem kpi_readmission_rate_range_witness:
  "get_kpi_summary kpi_demo_db (Some [1]) None (Some (2024, 1, 1)) (Some (2024, 1, 31))
       = Inr kpi_demo_summary
   \<and> readmissions_closed kpi_demo_db
   \<and> 0 \<le> readmission_rate_30d_pct kpi_demo_summary
   \<and> readmission_rate_30d_pct kpi_demo_summary \<le> 100
   \<and> get_kpi_summary kpi_demo_db (Some [99]) None None None = Inr empty_kpi
   \<and> total_discharges empty_kpi = 0
   \<and> readmission_rate_30d_pct empty_kpi = 0"
proof -
  have c: "readmissions_closed kpi_demo_db"
    by (simp add: readmissions_closed_def kpi_demo_db_def)
  have e: "get_kpi_summary kpi_demo_db (Some [99]) None None None = Inr empty_kpi"
    using kpi_demo_empty_cohort
    by (simp add: get_kpi_summary_def execute_def kpi_core_def kpi_demo_db_def)
  have z: "total_discharges empty_kpi = 0" by (simp add: empty_kpi_def)
  from kpi_readmission_rate_range [OF kpi_demo_run]
    kpi_readmission_rate_range [OF e] z c e kpi_demo_run
  show ?thesis by simp
qed

section \<open>Properties of the bottleneck detector\<close>

subsection \<open>Comprehensions, groups and joins\<close>

lemma concat_map_if:
  "concat (map (\<lambda>x. if P x then F x else []) xs) = concat (map F (filter P xs))"
  by (induction xs) auto

lemma concat_map_single: "concat (map (\<lambda>x. [f x]) xs) = map f xs"
  by (induction xs) auto

lemma group_by_keys: "map fst (group_by key rows) = remdups (map key rows)"
  by (simp add: group_by_def comp_def)

lemma group_by_distinct: "distinct (map fst (group_by key rows))"
  by (simp add: group_by_keys)





lemma join_unique:
  assumes "distinct (map key B)" "b0 \<in> set B" "key b0 = k"
  shows "concat (map (\<lambda>b. if key b = k then F b else []) B) = F b0"
  using assms
proof (induction B)
  case Nil
  then show ?case by simp
next
  case (Cons b B)
  show ?case
  proof (cases "b = b0")
    case True
    have "k \<notin> key ` set B" using Cons.prems True by simp
    then have "\<forall>x \<in> set B. key x \<noteq> k" by blast
    then have "concat (map (\<lambda>b. if key b = k then F b else []) B) = []"
      by (induction B) auto
    with True Cons.prems show ?thesis by simp
  next
    case False
    then have "b0 \<in> set B" using Cons.prems by simp
    moreover have "key b \<noteq> k" using Cons.prems False \<open>b0 \<in> set B\<close> by force
    ultimately show ?thesis using Cons by simp
  qed
qed

lemma find_unique:
  assumes "distinct (map key B)" "b0 \<in> set B"
  shows "find (\<lambda>b. key b = key b0) B = Some b0"
  using assms by (induction B) force+

lemma filter_eq_distinct:
  "distinct xs \<Longrightarrow> filter (\<lambda>x. x = a \<and> Q x) xs = (if a \<in> set xs \<and> Q a then [a] else [])"
  by (induction xs) auto

lemma group_by_filter_key:
  "filter (\<lambda>kg. fst kg = k0 \<and> Q (snd kg)) (group_by key R) =
     (if k0 \<in> key ` set R \<and> Q (filter (\<lambda>r. key r = k0) R)
      then [(k0, filter (\<lambda>r. key r = k0) R)] else [])"
proof -
  have "filter (\<lambda>kg. fst kg = k0 \<and> Q (snd kg)) (group_by key R) =
        map (\<lambda>k. (k, filter (\<lambda>r. key r = k) R))
          (filter (\<lambda>k. k = k0 \<and> Q (filter (\<lambda>r. key r = k) R)) (remdups (map key R)))"
    by (simp add: group_by_def filter_map comp_def)
  also have "\<dots> = (if k0 \<in> key ` set R \<and> Q (filter (\<lambda>r. key r = k0) R)
      then [(k0, filter (\<lambda>r. key r = k0) R)] else [])"
    by (simp add: filter_eq_distinct [where Q = "\<lambda>k. Q (filter (\<lambda>r. key r = k) R)"])
  finally show ?thesis .
qed

subsection \<open>Peak-hour surplus\<close>






text \<open>
  A failing delayed-discharge statement is swallowed without a rollback: the transaction
  is aborted, the peak-hour statement fails in turn, and no flag is returned.
\<close>

lemma bottlenecks_after_delay_failure:
  "raises db Q_delay \<Longrightarrow> get_bottlenecks today db branch_ids date_from date_to = []"
  by (simp add: get_bottlenecks_def execute_def Let_def)



subsection \<open>Delayed discharge\<close>

lemma delay_join_fst:
  assumes "keys_consistent db"
  shows "map fst (delay_join db branch_ids df dt) =
         [(a, dis). a \<leftarrow> admissions db, dis \<leftarrow> discharges db,
            dis_admission_id dis = admission_id a,
            admitted_between df dt (admission_at a),
            14 < los_days (a, dis),
            any_clause branch_ids (branch_id a)]"
proof -
  have inner: "map fst (concat (map (\<lambda>dis. if dis_admission_id dis = admission_id a then
            concat (map (\<lambda>b. if b_branch_id b = branch_id a then
              concat (map (\<lambda>dp. if dp_department_id dp = department_id a then
                 if admitted_between df dt (admission_at a) then
                 if 14 < los_days (a, dis) then
                 if any_clause branch_ids (branch_id a) then [((a, dis), (b, dp))]
                 else [] else [] else [] else []) (departments db)) else [])
              (hospital_branches db)) else []) (discharges db)))
        = concat (map (\<lambda>dis. if dis_admission_id dis = admission_id a then
                 if admitted_between df dt (admission_at a) then
                 if 14 < los_days (a, dis) then
                 if any_clause branch_ids (branch_id a) then [(a, dis)]
                 else [] else [] else [] else []) (discharges db))"
    if a: "a \<in> set (admissions db)" for a
  proof -
    from assms a obtain b0 where b0: "b0 \<in> set (hospital_branches db)"
      "b_branch_id b0 = branch_id a"
      unfolding keys_consistent_def by auto
    from assms a obtain dp0 where dp0: "dp0 \<in> set (departments db)"
      "dp_department_id dp0 = department_id a"
      unfolding keys_consistent_def by auto
    have db: "distinct (map b_branch_id (hospital_branches db))"
      and dd: "distinct (map dp_department_id (departments db))"
      using assms unfolding keys_consistent_def by auto
    show ?thesis
      unfolding join_unique [OF dd dp0] join_unique [OF db b0]
      by (simp add: map_concat comp_def if_distrib [of "map fst"] cong: if_cong)
  qed
  show ?thesis
    unfolding delay_join_def map_concat
    by (simp add: comp_def inner cong: map_cong)
qed

lemma delay_join_key:
  assumes "keys_consistent db" and "r \<in> set (delay_join db branch_ids df dt)"
  shows "b_name (fst (snd r)) = branch_name_of db (branch_id (fst (fst r)))
       \<and> dp_name (snd (snd r)) = department_name_of db (department_id (fst (fst r)))"
proof -
  obtain a dis b dp where r: "r = ((a, dis), (b, dp))" by (metis surj_pair)
  from assms(2) have b: "b \<in> set (hospital_branches db)" "b_branch_id b = branch_id a"
    and dp: "dp \<in> set (departments db)" "dp_department_id dp = department_id a"
    unfolding r delay_join_def by (auto split: if_splits)
  have db: "distinct (map b_branch_id (hospital_branches db))"
    and dd: "distinct (map dp_department_id (departments db))"
    using assms(1) unfolding keys_consistent_def by auto
  show ?thesis
    using find_unique [OF db b(1)] find_unique [OF dd dp(1)] b(2) dp(2)
    by (simp add: r branch_name_of_def department_name_of_def)
qed

lemma delayed_rows_for_group:
  assumes "keys_consistent db"
  defines "key \<equiv> (\<lambda>r :: (admission \<times> discharge) \<times> (hospital_branch \<times> department).
             (branch_id (fst (fst r)), b_name (fst (snd r)),
              department_id (fst (fst r)), dp_name (snd (snd r))))"
  shows "filter (\<lambda>kg. fst (fst kg) = bid \<and> fst (snd (snd (fst kg))) = did \<and> 5 \<le> length (snd kg))
           (group_by key (delay_join db branch_ids df dt))
         = (let g = filter (\<lambda>r. branch_id (fst (fst r)) = bid \<and> department_id (fst (fst r)) = did)
                      (delay_join db branch_ids df dt)
            in if 5 \<le> length g
               then [((bid, branch_name_of db bid, did, department_name_of db did), g)] else [])"
proof -
  let ?R = "delay_join db branch_ids df dt"
  let ?k0 = "(bid, branch_name_of db bid, did, department_name_of db did)"
  have k: "key r = ?k0 \<longleftrightarrow> branch_id (fst (fst r)) = bid \<and> department_id (fst (fst r)) = did"
    if "r \<in> set ?R" for r
    using delay_join_key [OF assms(1) that] by (auto simp: key_def)
  have g: "filter (\<lambda>r. key r = ?k0) ?R
           = filter (\<lambda>r. branch_id (fst (fst r)) = bid \<and> department_id (fst (fst r)) = did) ?R"
    by (rule filter_cong) (simp_all add: k)
  have "filter (\<lambda>kg. fst (fst kg) = bid \<and> fst (snd (snd (fst kg))) = did \<and> 5 \<le> length (snd kg))
           (group_by key ?R)
        = filter (\<lambda>kg. fst kg = ?k0 \<and> 5 \<le> length (snd kg)) (group_by key ?R)"
  proof (rule filter_cong [OF refl])
    fix kg assume "kg \<in> set (group_by key ?R)"
    then have "fst kg \<in> fst ` set (group_by key ?R)" by (rule imageI)
    then have "fst kg \<in> key ` set ?R"
      using group_by_keys [of key ?R] by (metis set_map set_remdups)
    then obtain r where r: "r \<in> set ?R" "fst kg = key r" by auto
    show "(fst (fst kg) = bid \<and> fst (snd (snd (fst kg))) = did \<and> 5 \<le> length (snd kg))
          = (fst kg = ?k0 \<and> 5 \<le> length (snd kg))"
      using k [OF r(1)] r(2) by (auto simp: key_def)
  qed
  also have "\<dots> = (if ?k0 \<in> key ` set ?R \<and> 5 \<le> length (filter (\<lambda>r. key r = ?k0) ?R)
      then [(?k0, filter (\<lambda>r. key r = ?k0) ?R)] else [])"
    by (rule group_by_filter_key [where Q = "\<lambda>g. 5 \<le> length g"])
  also have "\<dots> = (if 5 \<le> length (filter (\<lambda>r. key r = ?k0) ?R)
      then [(?k0, filter (\<lambda>r. key r = ?k0) ?R)] else [])"
  proof -
    have "?k0 \<in> key ` set ?R" if "5 \<le> length (filter (\<lambda>r. key r = ?k0) ?R)"
    proof -
      from that have "filter (\<lambda>r. key r = ?k0) ?R \<noteq> []" by auto
      then obtain r where "r \<in> set ?R" "key r = ?k0"
        by (auto simp: filter_empty_conv)
      then show ?thesis by force
    qed
    then show ?thesis by auto
  qed
  finally show ?thesis by (simp add: g Let_def)
qed

lemma delay_rows_alt:
  "delay_rows db branch_ids df dt =
     sort_key (\<lambda>r. - fst (snd r))
       (map (\<lambda>kg. (fst kg, int (length (snd kg)),
                    sql_avg (map (\<lambda>r. los_days (fst r)) (snd kg))))
          (filter (\<lambda>kg. 5 \<le> length (snd kg))
             (group_by (\<lambda>r. (branch_id (fst (fst r)), b_name (fst (snd r)),
                              department_id (fst (fst r)), dp_name (snd (snd r))))
                (delay_join db branch_ids df dt))))"
  by (simp add: delay_rows_def split_def concat_map_if concat_map_single)

lemma long_stay_group:
  assumes "keys_consistent db"
  shows "map fst (filter (\<lambda>r. branch_id (fst (fst r)) = bid \<and> department_id (fst (fst r)) = did)
            (delay_join db branch_ids
               (case date_from of None \<Rightarrow> date_add_days today (- 30) | Some d \<Rightarrow> d)
               (case date_to of None \<Rightarrow> today | Some d \<Rightarrow> d)))
         = long_stay_episodes today db branch_ids date_from date_to bid did"
proof -
  have "map fst (filter (\<lambda>r. branch_id (fst (fst r)) = bid \<and> department_id (fst (fst r)) = did) R)
        = filter (\<lambda>e. branch_id (fst e) = bid \<and> department_id (fst e) = did) (map fst R)"
    for R :: "((admission \<times> discharge) \<times> (hospital_branch \<times> department)) list"
    by (simp add: filter_map comp_def)
  then show ?thesis
    by (simp only: delay_join_fst [OF assms] long_stay_episodes_def closed_long_stays_def)
qed

lemma demo_kc: "keys_consistent bottleneck_demo_db"
  by (simp add: keys_consistent_def bottleneck_demo_db_def demo_admission_def demo_branch_def demo_dept_def)

lemma demo_long10:
  "long_stay_episodes (2024, 3, 20) bottleneck_demo_db None (Some (2024, 3, 4)) (Some (2024, 3, 4)) 1 10 =
     [(demo_admission 1 10 9, demo_discharge 1 9), (demo_admission 2 10 9, demo_discharge 2 9),
      (demo_admission 3 10 0, demo_discharge 3 0), (demo_admission 4 10 1, demo_discharge 4 1),
      (demo_admission 5 10 2, demo_discharge 5 2)]"
  by (simp add: long_stay_episodes_def closed_long_stays_def bottleneck_demo_db_def
        demo_admission_def demo_discharge_def date_defs los_days_def)

lemma demo_long11:
  "length (long_stay_episodes (2024, 3, 20) bottleneck_demo_db None (Some (2024, 3, 4)) (Some (2024, 3, 4)) 1 11) = 4"
  by (simp add: long_stay_episodes_def closed_long_stays_def bottleneck_demo_db_def
        demo_admission_def demo_discharge_def date_defs los_days_def)

lemma py_round2_demo: "py_round2 (py_float (3001 / 200)) = 1501 / 100"
proof -
  have "(3001 / 200 :: rat) = 15005 / 1000" by simp
  then show ?thesis by (simp only: py_round2_float_15005)
qed

lemma demo_los:
  "los_days (demo_admission i d h, demo_discharge j h) = 1296432 / 86400"
  by (simp add: los_days_def demo_admission_def demo_discharge_def epoch_def)

lemma demo_sel:
  "admission_id (demo_admission i d h) = i"
  "branch_id (demo_admission i d h) = 1"
  "department_id (demo_admission i d h) = d"
  "admission_at (demo_admission i d h) = ((2024, 3, 4), h * 3600)"
  "dis_admission_id (demo_discharge i h) = i"
  by (simp_all add: demo_admission_def demo_discharge_def)

lemma demo_delay_join:
  "delay_join bottleneck_demo_db None (2024, 3, 4) (2024, 3, 4) =
     [((demo_admission 1 10 9, demo_discharge 1 9), (demo_branch, demo_dept 10 ''Cardiology'')),
      ((demo_admission 2 10 9, demo_discharge 2 9), (demo_branch, demo_dept 10 ''Cardiology'')),
      ((demo_admission 3 10 0, demo_discharge 3 0), (demo_branch, demo_dept 10 ''Cardiology'')),
      ((demo_admission 4 10 1, demo_discharge 4 1), (demo_branch, demo_dept 10 ''Cardiology'')),
      ((demo_admission 5 10 2, demo_discharge 5 2), (demo_branch, demo_dept 10 ''Cardiology'')),
      ((demo_admission 6 11 3, demo_discharge 6 3), (demo_branch, demo_dept 11 ''Oncology'')),
      ((demo_admission 7 11 4, demo_discharge 7 4), (demo_branch, demo_dept 11 ''Oncology'')),
      ((demo_admission 8 11 5, demo_discharge 8 5), (demo_branch, demo_dept 11 ''Oncology'')),
      ((demo_admission 9 11 6, demo_discharge 9 6), (demo_branch, demo_dept 11 ''Oncology''))]"
  by (simp add: delay_join_def bottleneck_demo_db_def demo_branch_def demo_dept_def
        demo_sel demo_los date_defs)

lemma demo_delay_rows:
  "delay_rows bottleneck_demo_db None (2024, 3, 4) (2024, 3, 4) =
     [((1, ''City General Hospital'', 10, ''Cardiology''), 5, Some (1296432 / 86400))]"
  by (simp add: delay_rows_def demo_delay_join group_by_def demo_sel demo_los sql_avg_def
        demo_branch_def demo_dept_def)

lemma demo_peak_hourly:
  "peak_hourly bottleneck_demo_db None (2024, 3, 4) (2024, 3, 4) =
     [(9, 2), (0, 1), (1, 1), (2, 1), (3, 1), (4, 1), (5, 1), (6, 1), (7, 1), (8, 1), (10, 1)]"
  by (simp add: peak_hourly_def bottleneck_demo_db_def group_by_def demo_sel date_defs)

lemma demo_peak_rows:
  "peak_rows bottleneck_demo_db None (2024, 3, 4) (2024, 3, 4) = [(9, 2)]"
  by (simp add: peak_rows_def demo_peak_hourly)

lemma demo_flags:
  "get_bottlenecks (2024, 3, 20) bottleneck_demo_db None (Some (2024, 3, 4)) (Some (2024, 3, 4))
     = [Delayed_discharge 1 ''City General Hospital'' 10 ''Cardiology'' 5 (1501 / 100),
        Peak_hour_surplus 9 2]"
proof -
  have "\<not> raises bottleneck_demo_db Q_delay" "\<not> raises bottleneck_demo_db Q_peak"
    by (simp_all add: bottleneck_demo_db_def)
  then show ?thesis
    by (simp add: get_bottlenecks_def guarded_def execute_def demo_delay_rows demo_peak_rows
          or_zero_def py_round2_demo)
qed

lemma demo_mean:
  "sum_list (map los_days
      (long_stay_episodes (2024, 3, 20) bottleneck_demo_db None (Some (2024, 3, 4))
         (Some (2024, 3, 4)) 1 10))
    / of_nat (length
      (long_stay_episodes (2024, 3, 20) bottleneck_demo_db None (Some (2024, 3, 4))
         (Some (2024, 3, 4)) 1 10)) = 1296432 / 86400"
  by (simp add: demo_long10 demo_los)

text \<open>
  C6. When the delayed-discharge statement executes, over a store whose branch and
  department identifiers are keys that every admission refers to, the flags for a branch
  and department are exactly one flag if the group has at least five closed episodes of
  the range staying more than 14 days, and none otherwise, whatever the other episodes of
  the group; the flag carries the number of those episodes and their mean length of stay,
  as the double rounded to two decimals that the result holds.
\<close>

theorem delayed_discharge_flag:
  assumes "\<not> raises db Q_delay" and "keys_consistent db"
  shows "filter (is_delayed_for bid did)
           (get_bottlenecks today db branch_ids date_from date_to) =
         (let L = long_stay_episodes today db branch_ids date_from date_to bid did in
          if 5 \<le> length L
          then [Delayed_discharge bid (branch_name_of db bid) did (department_name_of db did)
                  (int (length L))
                  (py_round2 (py_float (sum_list (map los_days L) / of_nat (length L))))]
          else [])"
proof -
  let ?df = "case date_from of None \<Rightarrow> date_add_days today (- 30) | Some d \<Rightarrow> d"
  let ?dt = "case date_to of None \<Rightarrow> today | Some d \<Rightarrow> d"
  let ?R = "delay_join db branch_ids ?df ?dt"
  let ?key = "\<lambda>r :: (admission \<times> discharge) \<times> (hospital_branch \<times> department).
             (branch_id (fst (fst r)), b_name (fst (snd r)),
              department_id (fst (fst r)), dp_name (snd (snd r)))"
  let ?h = "\<lambda>kg :: (int \<times> string \<times> int \<times> string)
                    \<times> ((admission \<times> discharge) \<times> (hospital_branch \<times> department)) list.
              (fst kg, int (length (snd kg)), sql_avg (map (\<lambda>r. los_days (fst r)) (snd kg)))"
  let ?mk = "\<lambda>((bid, bname, did, dname), n, avg_los).
                Delayed_discharge bid bname did dname n (py_round2 (py_float (or_zero avg_los)))"
  let ?g = "filter (\<lambda>r. branch_id (fst (fst r)) = bid \<and> department_id (fst (fst r)) = did) ?R"
  let ?L = "long_stay_episodes today db branch_ids date_from date_to bid did"
  have peak: "filter (is_delayed_for bid did) (map (\<lambda>(h, cnt). Peak_hour_surplus h cnt) xs) = []"
    for xs by (induction xs) auto
  have "filter (is_delayed_for bid did) (get_bottlenecks today db branch_ids date_from date_to)
        = filter (is_delayed_for bid did) (map ?mk (delay_rows db branch_ids ?df ?dt))"
    using assms(1) by (simp add: get_bottlenecks_def guarded_def execute_def Let_def peak)
  also have "\<dots> = map ?mk (filter (\<lambda>r. fst (fst r) = bid \<and> fst (snd (snd (fst r))) = did)
                         (delay_rows db branch_ids ?df ?dt))"
    by (simp add: filter_map comp_def split_def)
  also have "filter (\<lambda>r. fst (fst r) = bid \<and> fst (snd (snd (fst r))) = did)
                (delay_rows db branch_ids ?df ?dt)
             = sort_key (\<lambda>r. - fst (snd r))
                 (map ?h (filter (\<lambda>kg. fst (fst kg) = bid \<and> fst (snd (snd (fst kg))) = did
                                     \<and> 5 \<le> length (snd kg)) (group_by ?key ?R)))"
    by (simp add: delay_rows_alt filter_sort filter_map comp_def conj_ac)
  also have "\<dots> = (if 5 \<le> length ?g
                    then [?h ((bid, branch_name_of db bid, did, department_name_of db did), ?g)]
                    else [])"
    by (simp add: delayed_rows_for_group [OF assms(2)] Let_def)
  finally have "filter (is_delayed_for bid did)
                  (get_bottlenecks today db branch_ids date_from date_to)
        = (if 5 \<le> length ?g
           then [Delayed_discharge bid (branch_name_of db bid) did (department_name_of db did)
                   (int (length ?g))
                   (py_round2 (py_float (or_zero (sql_avg (map (\<lambda>r. los_days (fst r)) ?g)))))]
           else [])"
    by simp
  moreover have "length ?g = length ?L"
    unfolding long_stay_group [OF assms(2), symmetric] by (simp only: length_map)
  moreover have "map (\<lambda>r. los_days (fst r)) ?g = map los_days ?L"
    unfolding long_stay_group [OF assms(2), symmetric] by (simp only: map_map comp_def)
  ultimately show ?thesis
    by (auto simp: Let_def sql_avg_def or_zero_def)
qed

theorem delayed_discharge_flag_witness:
  "\<not> raises bottleneck_demo_db Q_delay \<and> keys_consistent bottleneck_demo_db
   \<and> length (long_stay_episodes (2024, 3, 20) bottleneck_demo_db None (Some (2024, 3, 4))
        (Some (2024, 3, 4)) 1 10) = 5
   \<and> filter (is_delayed_for 1 10)
        (get_bottlenecks (2024, 3, 20) bottleneck_demo_db None (Some (2024, 3, 4))
           (Some (2024, 3, 4)))
      = [Delayed_discharge 1 ''City General Hospital'' 10 ''Cardiology'' 5 (1501 / 100)]
   \<and> length (long_stay_episodes (2024, 3, 20) bottleneck_demo_db None (Some (2024, 3, 4))
        (Some (2024, 3, 4)) 1 11) = 4
   \<and> filter (is_delayed_for 1 11)
        (get_bottlenecks (2024, 3, 20) bottleneck_demo_db None (Some (2024, 3, 4))
           (Some (2024, 3, 4))) = []"
proof -
  have r: "\<not> raises bottleneck_demo_db Q_delay"
    by (simp add: bottleneck_demo_db_def)
  have names: "branch_name_of bottleneck_demo_db 1 = ''City General Hospital''"
    "department_name_of bottleneck_demo_db 10 = ''Cardiology''"
    by (simp_all add: branch_name_of_def department_name_of_def bottleneck_demo_db_def
          demo_branch_def demo_dept_def)
  have l10: "length (long_stay_episodes (2024, 3, 20) bottleneck_demo_db None (Some (2024, 3, 4))
        (Some (2024, 3, 4)) 1 10) = 5"
    by (simp add: demo_long10)
  have m: "sum_list (map los_days
        (long_stay_episodes (2024, 3, 20) bottleneck_demo_db None (Some (2024, 3, 4))
           (Some (2024, 3, 4)) 1 10)) / 5 = (1296432 / 86400 :: rat)"
    using demo_mean by (simp add: l10)
  show ?thesis
    using delayed_discharge_flag [OF r demo_kc, of 1 10 "(2024, 3, 20)" None
        "Some (2024, 3, 4)" "Some (2024, 3, 4)"]
      delayed_discharge_flag [OF r demo_kc, of 1 11 "(2024, 3, 20)" None
        "Some (2024, 3, 4)" "Some (2024, 3, 4)"]
    by (simp add: r demo_kc l10 demo_long11 m names py_round2_demo Let_def)
qed

section \<open>Properties of the threshold alerts\<close>

lemma join_on_filter:
  "filter P (join_on C xs ys) = join_on (\<lambda>x y. C x y \<and> P (x, y)) xs ys"
proof -
  have "filter P (concat (map (\<lambda>y. if C x y then [(x, y)] else []) ys))
        = concat (map (\<lambda>y. if C x y \<and> P (x, y) then [(x, y)] else []) ys)" for x
    by (induction ys) auto
  then show ?thesis
    unfolding join_on_def by (induction xs) auto
qed

lemma join_on_cong:
  assumes "\<And>x y. x \<in> set xs \<Longrightarrow> y \<in> set ys \<Longrightarrow> C x y = C' x y"
  shows "join_on C xs ys = join_on C' xs ys"
  unfolding join_on_def
  by (intro arg_cong [where f = concat] map_cong refl) (simp add: assms)

lemma join_on_set: "set (join_on C xs ys) = {(x, y). x \<in> set xs \<and> y \<in> set ys \<and> C x y}"
  by (auto simp: join_on_def split: if_splits)

lemma alert_bed_join:
  "[(ra, b). ra \<leftarrow> resource_allocation db, b \<leftarrow> hospital_branches db,
      b_branch_id b = ra_branch_id ra,
      df \<le> record_date ra, record_date ra \<le> dt,
      any_clause branch_ids (ra_branch_id ra)]
   = join_on (\<lambda>ra b. b_branch_id b = ra_branch_id ra \<and> df \<le> record_date ra
                \<and> record_date ra \<le> dt \<and> any_clause branch_ids (ra_branch_id ra))
       (resource_allocation db) (hospital_branches db)"
  unfolding join_on_def
  by (intro arg_cong [where f = concat] map_cong refl) auto

lemma mean_bed_occupancy_join:
  "mean_bed_occupancy db bid d =
     sql_avg (map (\<lambda>rb. of_int (beds_occupied (fst rb) * 100) / of_int (bed_count (snd rb)))
       (join_on (\<lambda>ra b. ra_branch_id ra = bid \<and> record_date ra = d \<and> b_branch_id b = bid
                   \<and> bed_count b \<noteq> 0)
          (resource_allocation db) (hospital_branches db)))"
  unfolding mean_bed_occupancy_def join_on_def map_concat
  by (intro arg_cong [where f = sql_avg] arg_cong [where f = concat] map_cong refl)
     (auto simp: map_concat comp_def intro!: arg_cong [where f = concat] map_cong)

lemma having_avg_ge_alt:
  "having_avg_ge th rows =
     concat (map (\<lambda>ka. case snd ka of None \<Rightarrow> []
                        | Some v \<Rightarrow> if th \<le> v then [(fst ka, v)] else []) rows)"
  unfolding having_avg_ge_def
  by (intro arg_cong [where f = concat] map_cong refl) (auto split: option.splits)

lemma having_avg_ge_filter:
  "filter (\<lambda>r. Q (fst r)) (having_avg_ge th rows)
     = having_avg_ge th (filter (\<lambda>r. Q (fst r)) rows)"
  unfolding having_avg_ge_alt
  by (induction rows) (auto split: option.splits)

lemma alert_bed_rows_for:
  assumes "branch_key db"
  shows "filter (\<lambda>r. fst (fst r) = bid \<and> snd (snd (fst r)) = d)
           (alert_bed_rows db branch_ids df dt th)
         = (case (if df \<le> d \<and> d \<le> dt \<and> any_clause branch_ids bid
                  then mean_bed_occupancy db bid d else None) of
              None \<Rightarrow> []
            | Some v \<Rightarrow> if th \<le> v then [((bid, branch_name_of db bid, d), v)] else [])"
proof -
  let ?C = "\<lambda>ra b. b_branch_id b = ra_branch_id ra \<and> df \<le> record_date ra
                \<and> record_date ra \<le> dt \<and> any_clause branch_ids (ra_branch_id ra)"
  let ?J = "join_on ?C (resource_allocation db) (hospital_branches db)"
  let ?key = "\<lambda>rb :: resource_allocation_row \<times> hospital_branch.
                (ra_branch_id (fst rb), b_name (snd rb), record_date (fst rb))"
  let ?val = "\<lambda>rb :: resource_allocation_row \<times> hospital_branch.
                (of_int (beds_occupied (fst rb) * 100) / of_int (bed_count (snd rb)) :: rat)"
  let ?avgf = "\<lambda>kg :: (int \<times> string \<times> date) \<times> (resource_allocation_row \<times> hospital_branch) list.
                (fst kg, sql_avg (map ?val (filter (\<lambda>rb. bed_count (snd rb) \<noteq> 0) (snd kg))))"
  let ?k0 = "(bid, branch_name_of db bid, d)"
  let ?P = "\<lambda>rb :: resource_allocation_row \<times> hospital_branch.
                ra_branch_id (fst rb) = bid \<and> record_date (fst rb) = d"
  let ?g0 = "filter ?P ?J"
  let ?V = "map ?val (filter (\<lambda>rb. bed_count (snd rb) \<noteq> 0) ?g0)"
  have rows: "alert_bed_rows db branch_ids df dt th
        = sort_key (\<lambda>r. - snd r) (having_avg_ge th (map ?avgf (group_by ?key ?J)))"
    unfolding alert_bed_rows_def alert_bed_join
    by (simp add: split_def concat_map_if concat_map_single)
  have name: "b_name (snd rb) = branch_name_of db (ra_branch_id (fst rb))" if "rb \<in> set ?J" for rb
  proof -
    from that have b: "snd rb \<in> set (hospital_branches db)"
      "b_branch_id (snd rb) = ra_branch_id (fst rb)"
      by (auto simp: join_on_set)
    have "find (\<lambda>x. b_branch_id x = b_branch_id (snd rb)) (hospital_branches db) = Some (snd rb)"
      using assms b(1) unfolding branch_key_def by (rule find_unique)
    then show ?thesis by (simp add: branch_name_of_def b(2))
  qed
  have k: "?key rb = ?k0 \<longleftrightarrow> ?P rb" if "rb \<in> set ?J" for rb
    using name [OF that] by auto
  have g: "filter (\<lambda>rb. ?key rb = ?k0) ?J = ?g0"
    by (rule filter_cong [OF refl]) (rule k)
  have "filter (\<lambda>r. fst (fst r) = bid \<and> snd (snd (fst r)) = d)
           (alert_bed_rows db branch_ids df dt th)
        = sort_key (\<lambda>r. - snd r) (having_avg_ge th (map ?avgf
            (filter (\<lambda>kg. fst (fst kg) = bid \<and> snd (snd (fst kg)) = d) (group_by ?key ?J))))"
    by (simp add: rows filter_sort filter_map comp_def
          having_avg_ge_filter [where Q = "\<lambda>k. fst k = bid \<and> snd (snd k) = d"])
  also have "filter (\<lambda>kg. fst (fst kg) = bid \<and> snd (snd (fst kg)) = d) (group_by ?key ?J)
        = filter (\<lambda>kg. fst kg = ?k0 \<and> True) (group_by ?key ?J)"
  proof (rule filter_cong [OF refl])
    fix kg assume "kg \<in> set (group_by ?key ?J)"
    then have "fst kg \<in> fst ` set (group_by ?key ?J)" by (rule imageI)
    then have "fst kg \<in> ?key ` set ?J"
      by (simp only: set_map [symmetric] group_by_keys set_remdups)
    then obtain rb where rb: "rb \<in> set ?J" "fst kg = ?key rb" by auto
    show "(fst (fst kg) = bid \<and> snd (snd (fst kg)) = d) = (fst kg = ?k0 \<and> True)"
      using k [OF rb(1)] rb(2) by auto
  qed
  also have "\<dots> = (if ?k0 \<in> ?key ` set ?J \<and> True
                    then [(?k0, filter (\<lambda>rb. ?key rb = ?k0) ?J)] else [])"
    by (rule group_by_filter_key [where Q = "\<lambda>g. True"])
  also have "\<dots> = (if ?k0 \<in> ?key ` set ?J then [(?k0, ?g0)] else [])"
    by (simp only: g simp_thms)
  finally have step: "filter (\<lambda>r. fst (fst r) = bid \<and> snd (snd (fst r)) = d)
           (alert_bed_rows db branch_ids df dt th)
        = (if ?k0 \<in> ?key ` set ?J
           then (case sql_avg ?V of None \<Rightarrow> []
                 | Some v \<Rightarrow> if th \<le> v then [(?k0, v)] else [])
           else [])"
    by (simp add: having_avg_ge_alt split: option.splits)
  have empty: "sql_avg ?V = None" if "?k0 \<notin> ?key ` set ?J"
  proof -
    have "?g0 = []"
    proof (rule ccontr)
      assume "?g0 \<noteq> []"
      then obtain rb where rb: "rb \<in> set ?J" "?P rb"
        unfolding filter_empty_conv by blast
      from k [OF rb(1)] rb(2) have "?k0 = ?key rb" by simp
      then have "?k0 \<in> ?key ` set ?J" using rb(1) by (rule image_eqI)
      with that show False by simp
    qed
    then show ?thesis by (simp add: sql_avg_def)
  qed
  have V: "?V = map ?val (join_on (\<lambda>ra b. (?C ra b \<and> ?P (ra, b)) \<and> bed_count b \<noteq> 0)
                 (resource_allocation db) (hospital_branches db))"
    by (simp add: join_on_filter)
  have mean: "sql_avg ?V = (if df \<le> d \<and> d \<le> dt \<and> any_clause branch_ids bid
                  then mean_bed_occupancy db bid d else None)"
  proof (cases "df \<le> d \<and> d \<le> dt \<and> any_clause branch_ids bid")
    case True
    have "join_on (\<lambda>ra b. (?C ra b \<and> ?P (ra, b)) \<and> bed_count b \<noteq> 0)
                 (resource_allocation db) (hospital_branches db)
          = join_on (\<lambda>ra b. ra_branch_id ra = bid \<and> record_date ra = d \<and> b_branch_id b = bid
                   \<and> bed_count b \<noteq> 0) (resource_allocation db) (hospital_branches db)"
      by (rule join_on_cong) (use True in auto)
    then show ?thesis
      unfolding V mean_bed_occupancy_join using True by (simp only: if_True simp_thms)
  next
    case False
    have "join_on (\<lambda>ra b. (?C ra b \<and> ?P (ra, b)) \<and> bed_count b \<noteq> 0)
                 (resource_allocation db) (hospital_branches db)
          = join_on (\<lambda>ra b. False) (resource_allocation db) (hospital_branches db)"
      by (rule join_on_cong) (use False in auto)
    also have "\<dots> = []" by (auto simp: join_on_def)
    finally have J0: "join_on (\<lambda>ra b. (?C ra b \<and> ?P (ra, b)) \<and> bed_count b \<noteq> 0)
                 (resource_allocation db) (hospital_branches db) = []" .
    have a: "sql_avg ?V = None"
      unfolding V J0 by (simp add: sql_avg_def)
    have b: "(if df \<le> d \<and> d \<le> dt \<and> any_clause branch_ids bid
                  then mean_bed_occupancy db bid d else None) = None"
      using False by (rule if_not_P)
    show ?thesis unfolding b by (rule a)
  qed
  show ?thesis
  proof (cases "?k0 \<in> ?key ` set ?J")
    case True
    then show ?thesis unfolding step mean [symmetric] by simp
  next
    case False
    then show ?thesis unfolding step mean [symmetric] using empty [OF False] by simp
  qed
qed

lemma threshold_alerts_Inr:
  assumes "get_threshold_alerts today db branch_ids bed_th icu_th doc_th date_from date_to
             = Inr alerts"
  shows "\<exists>icu doc.
     alerts =
       map (\<lambda>((bid, name, dt), v).
              \<lparr> alert_type = ''high_bed_occupancy'', severity = ''warning'',
                al_branch_id = bid, al_branch_name = name,
                al_record_date = Some dt, value_pct = v, threshold_pct = bed_th \<rparr>)
         (alert_bed_rows db branch_ids
            (case date_from of
               None \<Rightarrow> date_add_days (case date_to of None \<Rightarrow> today | Some x \<Rightarrow> x) (- 7)
             | Some x \<Rightarrow> x)
            (case date_to of None \<Rightarrow> today | Some x \<Rightarrow> x) bed_th)
       @ map (\<lambda>((bid, name, dt), v).
              \<lparr> alert_type = ''high_icu_utilization'', severity = ''warning'',
                al_branch_id = bid, al_branch_name = name,
                al_record_date = Some dt, value_pct = v, threshold_pct = icu_th \<rparr>) icu
       @ map (\<lambda>((bid, name), v).
              \<lparr> alert_type = ''doctor_overutilization'', severity = ''info'',
                al_branch_id = bid, al_branch_name = name,
                al_record_date = None, value_pct = v, threshold_pct = doc_th \<rparr>) doc"
  using assms
  by (auto simp: get_threshold_alerts_def execute_def Let_def split: if_splits)

lemma demo_snapshot_sel:
  "ra_branch_id (demo_snapshot day h n) = 1"
  "record_date (demo_snapshot day h n) = (2024, 3, day)"
  "beds_occupied (demo_snapshot day h n) = n"
  "icu_occupied (demo_snapshot day h n) = 10"
  by (simp_all add: demo_snapshot_def)

lemma demo_branch_sel:
  "b_branch_id demo_branch = 1" "b_name demo_branch = ''City General Hospital''"
  "bed_count demo_branch = 200" "icu_beds demo_branch = 20"
  by (simp_all add: demo_branch_def)

lemma alert_demo_bed_rows:
  "alert_bed_rows alert_demo_db None (2024, 3, 4) (2024, 3, 6) 85 =
     [((1, ''City General Hospital'', (2024, 3, 4)), 175 / 2),
      ((1, ''City General Hospital'', (2024, 3, 6)), 85)]"
  by (simp add: alert_bed_rows_def alert_demo_db_def group_by_def having_avg_ge_def
        sql_avg_def any_clause_def demo_snapshot_sel demo_branch_sel)

lemma alert_demo_icu_rows:
  "alert_icu_rows alert_demo_db None (2024, 3, 4) (2024, 3, 6) 90 = []"
  by (simp add: alert_icu_rows_def alert_demo_db_def group_by_def having_avg_ge_def
        sql_avg_def any_clause_def demo_snapshot_sel demo_branch_sel)

lemma alert_demo_doc_rows:
  "alert_doc_rows alert_demo_db None (2024, 3, 4) (2024, 3, 6) 95 = []"
  by (simp add: alert_doc_rows_def alert_doc_util_def alert_demo_db_def group_by_def
        having_avg_ge_def)

lemma alert_demo_run:
  "get_threshold_alerts (2024, 3, 10) alert_demo_db None 85 90 95
     (Some (2024, 3, 4)) (Some (2024, 3, 6))
   = Inr [demo_bed_alert 4 (175 / 2), demo_bed_alert 6 85]"
proof -
  have "\<not> raises alert_demo_db q" for q by (simp add: alert_demo_db_def)
  then show ?thesis
    by (simp add: get_threshold_alerts_def execute_def alert_demo_bed_rows alert_demo_icu_rows
          alert_demo_doc_rows demo_bed_alert_def)
qed

lemma alert_demo_mean:
  "mean_bed_occupancy alert_demo_db 1 (2024, 3, 4) = Some (175 / 2)"
  "mean_bed_occupancy alert_demo_db 1 (2024, 3, 5) = Some (165 / 2)"
  "mean_bed_occupancy alert_demo_db 1 (2024, 3, 6) = Some 85"
  by (simp_all add: mean_bed_occupancy_def alert_demo_db_def sql_avg_def
        demo_snapshot_sel demo_branch_sel)

text \<open>
  C7. Over a store whose branch identifiers are a key, whenever \<open>get_threshold_alerts\<close>
  returns, its bed-occupancy alerts for a branch and a date are exactly one alert, of
  severity warning and carrying the mean and the threshold, if the branch and date are in
  the filtered range and the mean bed occupancy of that branch on that date is greater
  than or equal to the bed threshold; and none otherwise, in particular none when the
  mean is strictly below the threshold.
\<close>

theorem bed_alert_per_branch_date:
  assumes "branch_key db"
    and "get_threshold_alerts today db branch_ids bed_th icu_th doc_th date_from date_to
           = Inr alerts"
  shows "filter (is_bed_alert_for bid d) alerts =
     (case (if alert_in_range today branch_ids date_from date_to bid d
            then mean_bed_occupancy db bid d else None) of
        None \<Rightarrow> []
      | Some v \<Rightarrow>
          if bed_th \<le> v
          then [\<lparr> alert_type = ''high_bed_occupancy'', severity = ''warning'',
                  al_branch_id = bid, al_branch_name = branch_name_of db bid,
                  al_record_date = Some d, value_pct = v, threshold_pct = bed_th \<rparr>]
          else [])"
proof -
  let ?dt = "case date_to of None \<Rightarrow> today | Some x \<Rightarrow> x"
  let ?df = "case date_from of None \<Rightarrow> date_add_days ?dt (- 7) | Some x \<Rightarrow> x"
  let ?mk = "\<lambda>r :: (int \<times> string \<times> date) \<times> rat.
              \<lparr> alert_type = ''high_bed_occupancy'', severity = ''warning'',
                al_branch_id = fst (fst r), al_branch_name = fst (snd (fst r)),
                al_record_date = Some (snd (snd (fst r))), value_pct = snd r,
                threshold_pct = bed_th \<rparr>"
  from threshold_alerts_Inr [OF assms(2)] obtain icu doc where
    alerts: "alerts = map ?mk (alert_bed_rows db branch_ids ?df ?dt bed_th)
       @ map (\<lambda>((bid, name, dt), v).
              \<lparr> alert_type = ''high_icu_utilization'', severity = ''warning'',
                al_branch_id = bid, al_branch_name = name,
                al_record_date = Some dt, value_pct = v, threshold_pct = icu_th \<rparr>) icu
       @ map (\<lambda>((bid, name), v).
              \<lparr> alert_type = ''doctor_overutilization'', severity = ''info'',
                al_branch_id = bid, al_branch_name = name,
                al_record_date = None, value_pct = v, threshold_pct = doc_th \<rparr>) doc"
    by (auto simp: split_def)
  have "filter (is_bed_alert_for bid d) alerts
        = map ?mk (filter (\<lambda>r. fst (fst r) = bid \<and> snd (snd (fst r)) = d)
                     (alert_bed_rows db branch_ids ?df ?dt bed_th))"
    unfolding alerts
    by (simp add: filter_map comp_def split_def is_bed_alert_for_def)
  also have "\<dots> = map ?mk
      (case (if ?df \<le> d \<and> d \<le> ?dt \<and> any_clause branch_ids bid
             then mean_bed_occupancy db bid d else None) of
         None \<Rightarrow> []
       | Some v \<Rightarrow> if bed_th \<le> v then [((bid, branch_name_of db bid, d), v)] else [])"
    by (simp only: alert_bed_rows_for [OF assms(1)])
  finally show ?thesis
    by (simp add: alert_in_range_def Let_def split: option.splits)
qed

theorem bed_alert_per_branch_date_witness:
  "branch_key alert_demo_db
   \<and> get_threshold_alerts (2024, 3, 10) alert_demo_db None 85 90 95
        (Some (2024, 3, 4)) (Some (2024, 3, 6))
      = Inr [demo_bed_alert 4 (175 / 2), demo_bed_alert 6 85]
   \<and> mean_bed_occupancy alert_demo_db 1 (2024, 3, 4) = Some (175 / 2)
   \<and> filter (is_bed_alert_for 1 (2024, 3, 4)) [demo_bed_alert 4 (175 / 2), demo_bed_alert 6 85]
      = [demo_bed_alert 4 (175 / 2)]
   \<and> mean_bed_occupancy alert_demo_db 1 (2024, 3, 5) = Some (165 / 2)
   \<and> filter (is_bed_alert_for 1 (2024, 3, 5)) [demo_bed_alert 4 (175 / 2), demo_bed_alert 6 85]
      = []
   \<and> mean_bed_occupancy alert_demo_db 1 (2024, 3, 6) = Some 85
   \<and> filter (is_bed_alert_for 1 (2024, 3, 6)) [demo_bed_alert 4 (175 / 2), demo_bed_alert 6 85]
      = [demo_bed_alert 6 85]"
proof -
  have k: "branch_key alert_demo_db"
    by (simp add: branch_key_def alert_demo_db_def)
  have n: "branch_name_of alert_demo_db 1 = ''City General Hospital''"
    by (simp add: branch_name_of_def alert_demo_db_def demo_branch_def)
  have r: "alert_in_range (2024, 3, 10) None (Some (2024, 3, 4)) (Some (2024, 3, 6)) 1 (2024, 3, d)
           \<longleftrightarrow> 4 \<le> d \<and> d \<le> 6" for d
    by (auto simp add: alert_in_range_def any_clause_def)
  show ?thesis
    using bed_alert_per_branch_date [OF k alert_demo_run, of 1 "(2024, 3, 4)"]
      bed_alert_per_branch_date [OF k alert_demo_run, of 1 "(2024, 3, 5)"]
      bed_alert_per_branch_date [OF k alert_demo_run, of 1 "(2024, 3, 6)"]
    by (simp add: k alert_demo_run alert_demo_mean r n demo_bed_alert_def)
qed

section \<open>Properties of the moving average\<close>

lemma pg_round2_of_int: "pg_round2 (of_int n) = of_int n"
proof -
  have "\<lfloor>(of_int n :: rat) * 100 + 1 / 2\<rfloor> = n * 100"
    by (rule floor_unique) simp_all
  moreover have "\<lfloor>- (of_int n :: rat) * 100 + 1 / 2\<rfloor> = - n * 100"
    by (rule floor_unique) simp_all
  ultimately show ?thesis
    by (simp add: pg_round2_def)
qed

lemma pg_round2_one: "pg_round2 1 = 1"
  using pg_round2_of_int [of 1] by simp

lemma pg_round2_demo: "pg_round2 (10 / 7) = 143 / 100"
proof -
  have "\<lfloor>(10 / 7 :: rat) * 100 + 1 / 2\<rfloor> = 143"
    by (rule floor_unique) simp_all
  then show ?thesis by (simp add: pg_round2_def)
qed

text \<open>The double nearest to 1.43 lies below it.\<close>

lemma py_float_143: "py_float (143 / 100) = 6440147467139809 / 4503599627370496"
proof -
  have r: "round_half_even ((143 / 100) / 2 powi (0 - 52)) = 6440147467139809"
    by (rule round_half_even_eqI) (simp_all add: power_int_minus)
  have "py_float (143 / 100) = of_int 6440147467139809 * 2 powi (0 - 52)"
    by (rule py_float_eqI [OF _ _ _ r]) simp_all
  then show ?thesis by (simp add: power_int_minus)
qed

lemma demo_lookback: "date_add_days (2024, 3, 11) (- 7) = (2024, 3, 4)"
proof -
  have "(f ^^ 7) x = f (f (f (f (f (f (f x))))))" for f :: "date \<Rightarrow> date" and x
    by (simp add: numeral_eq_Suc)
  then show ?thesis by (simp add: date_add_days_def)
qed

lemma demo_admission_on_sel:
  "branch_id (demo_admission_on day i) = 1"
  "admission_at (demo_admission_on day i) = ((2024, 3, day), 32400)"
  by (simp_all add: demo_admission_on_def)

lemma ma_demo_daily:
  "ma_daily (2024, 3, 11) ma_demo_db None 7 =
     [((2024, 3, 4), 1), ((2024, 3, 5), 1), ((2024, 3, 6), 1), ((2024, 3, 7), 1),
      ((2024, 3, 8), 1), ((2024, 3, 9), 1), ((2024, 3, 10), 1), ((2024, 3, 11), 4)]"
  by (simp add: ma_daily_def demo_lookback ma_demo_db_def group_by_def date_trunc_def
        midnight_def any_clause_def demo_admission_on_sel)

lemma ma_demo_run:
  "get_admission_trend_with_moving_avg (2024, 3, 11) ma_demo_db None 7 3 = Inr ma_demo_points"
proof -
  have r: "\<not> raises ma_demo_db Q_moving_avg" by (simp add: ma_demo_db_def)
  show ?thesis
    by (simp add: get_admission_trend_with_moving_avg_def execute_def r ma_demo_daily
          sql_avg_def or_zero_def pg_round2_demo pg_round2_one py_float_143
          ma_demo_points_def ma_point_of_def)
qed

lemma ma_demo_spec:
  "spec_trailing_mean (map (\<lambda>p. (ma_date p, ma_admissions p)) ma_demo_points) 3 (2024, 3, 11)
     = 2"
  by (simp add: spec_trailing_mean_def ma_demo_points_def ma_point_of_def)

text \<open>
  C1 fails on the code. The window of the statement is fixed at the current row and the
  six rows before it, whatever \<open>window_days\<close> is. With a window of 3 days and one
  admission on each day from 2024-03-04 to 2024-03-10 and four on 2024-03-11, the mean of
  the last three days is 2, and the service returns the double nearest to 1.43, the
  rounded mean 10/7 of the last seven rows.
\<close>

theorem moving_avg_ignores_window_days:
  "get_admission_trend_with_moving_avg (2024, 3, 11) ma_demo_db None 7 3 = Inr ma_demo_points
   \<and> ma_date (last ma_demo_points) = (2024, 3, 11)
   \<and> moving_avg_7d (last ma_demo_points) = py_float (pg_round2 (10 / 7))
   \<and> spec_trailing_mean (map (\<lambda>p. (ma_date p, ma_admissions p)) ma_demo_points) 3
        (2024, 3, 11) = 2
   \<and> moving_avg_7d (last ma_demo_points) < 2"
  using ma_demo_run ma_demo_spec
  by (simp add: ma_demo_points_def ma_point_of_def pg_round2_demo py_float_143)

section \<open>Properties of the trend engine\<close>

subsection \<open>Rendering of numbers and dates\<close>

lemma digit_char_code:
  assumes "k < 10"
  shows "of_char (digit_char k) = (48 + k :: nat)"
proof -
  from assms have "k \<in> {0, 1, 2, 3, 4, 5, 6, 7, 8, 9}" by auto
  then show ?thesis by (auto simp: digit_char_def)
qed

lemma digits_chars: "c \<in> set (digits n) \<Longrightarrow> \<exists>k < 10. c = digit_char k"
proof (induction n rule: digits.induct)
  case (1 n)
  show ?case
  proof (cases "n < 10")
    case True
    with "1.prems" show ?thesis by (auto simp: digits.simps [of n])
  next
    case False
    with "1.prems" have "c \<in> set (digits (n div 10)) \<or> c = digit_char (n mod 10)"
      by (auto simp: digits.simps [of n])
    then show ?thesis
    proof
      assume "c \<in> set (digits (n div 10))"
      with False "1.IH" show ?thesis by blast
    next
      assume "c = digit_char (n mod 10)"
      moreover have "n mod 10 < 10" by simp
      ultimately show ?thesis by blast
    qed
  qed
qed

lemma digits_code: "c \<in> set (digits n) \<Longrightarrow> 48 \<le> (of_char c :: nat) \<and> (of_char c :: nat) < 58"
  using digits_chars [of c n] digit_char_code by auto

lemma lpad_code:
  "c \<in> set (lpad k (digits n)) \<Longrightarrow> 48 \<le> (of_char c :: nat) \<and> (of_char c :: nat) < 58"
  using digits_code [of c n] by (auto simp: lpad_def)

lemma dash_not_digit: "CHR ''-'' \<notin> set (digits n)" "CHR ''-'' \<notin> set (lpad k (digits n))"
  using digits_code [of "CHR ''-''" n] lpad_code [of "CHR ''-''" k n] by auto

lemma Q_not_digit: "CHR ''Q'' \<notin> set (digits n)" "CHR ''Q'' \<notin> set (lpad k (digits n))"
  using digits_code [of "CHR ''Q''" n] lpad_code [of "CHR ''Q''" k n] by auto

lemma digits_value_snoc:
  "digits_value (s @ [c]) = 10 * digits_value s + (of_char c - 48)"
  by (simp add: digits_value_def)

lemma digits_value_digits: "digits_value (digits n) = n"
proof (induction n rule: digits.induct)
  case (1 n)
  show ?case
  proof (cases "n < 10")
    case True
    then show ?thesis
      by (simp add: digits.simps [of n] digits_value_def digit_char_code)
  next
    case False
    have "n mod 10 < 10" by simp
    then have "(of_char (digit_char (n mod 10)) :: nat) - 48 = n mod 10"
      by (simp add: digit_char_code)
    with False "1.IH" show ?thesis
      by (simp add: digits.simps [of n] digits_value_snoc)
  qed
qed

lemma digits_value_zeros: "digits_value (replicate m CHR ''0'' @ s) = digits_value s"
  by (induction m) (simp_all add: digits_value_def)

lemma digits_value_lpad: "digits_value (lpad k (digits n)) = n"
  by (simp add: lpad_def digits_value_zeros digits_value_digits)

lemma digits_inj: "digits n = digits n' \<Longrightarrow> n = n'"
  using digits_value_digits by metis

lemma lpad_digits_inj: "lpad k (digits n) = lpad k' (digits n') \<Longrightarrow> n = n'"
  using digits_value_lpad by metis

lemma split_at_first:
  assumes "xs @ c # ys = xs' @ c # ys'" and "c \<notin> set xs" and "c \<notin> set xs'"
  shows "xs = xs' \<and> ys = ys'"
proof -
  have t: "takeWhile (\<lambda>x. x \<noteq> c) (zs @ c # ws) = zs" if "c \<notin> set zs" for zs ws
    using that by (induction zs) auto
  have "takeWhile (\<lambda>x. x \<noteq> c) (xs @ c # ys) = xs"
    using assms(2) by (rule t)
  moreover have "takeWhile (\<lambda>x. x \<noteq> c) (xs' @ c # ys') = xs'"
    using assms(3) by (rule t)
  ultimately have "xs = xs'" using assms(1) by simp
  with assms(1) show ?thesis by simp
qed

lemma to_char_ymd:
  "to_char_date d ''YYYY-MM-DD'' =
     lpad 4 (digits (year_of d)) @ CHR ''-'' # lpad 2 (digits (month_of d))
       @ CHR ''-'' # lpad 2 (digits (day_of d))"
  by (simp add: to_char_date.simps)

lemma to_char_ym:
  "to_char_date d ''YYYY-MM'' =
     lpad 4 (digits (year_of d)) @ CHR ''-'' # lpad 2 (digits (month_of d))"
  by (simp add: to_char_date.simps)

lemma to_char_yq:
  "to_char_date d ''YYYY-Q'' =
     lpad 4 (digits (year_of d)) @ CHR ''-'' # digits ((month_of d - 1) div 3 + 1)"
  by (simp add: to_char_date.simps)

subsection \<open>Periods and their labels\<close>

text \<open>The format of the labels of a granularity.\<close>

lemma period_label_expr:
  "period_label g ts =
     to_char_date (period_expr g ts)
       (if g = ''daily'' \<or> g = ''weekly'' then ''YYYY-MM-DD''
        else if g = ''monthly'' then ''YYYY-MM'' else ''YYYY-Q'')"
  by (simp add: period_label_def period_expr_def to_char_def date_trunc_def midnight_def)

lemma ymd_inj:
  assumes "to_char_date d ''YYYY-MM-DD'' = to_char_date d' ''YYYY-MM-DD''"
  shows "d = d'"
proof -
  from assms [unfolded to_char_ymd]
  have y: "lpad 4 (digits (year_of d)) = lpad 4 (digits (year_of d'))"
    and r: "lpad 2 (digits (month_of d)) @ CHR ''-'' # lpad 2 (digits (day_of d))
            = lpad 2 (digits (month_of d')) @ CHR ''-'' # lpad 2 (digits (day_of d'))"
    using split_at_first [OF _ dash_not_digit(2) dash_not_digit(2)] by blast+
  from r have m: "lpad 2 (digits (month_of d)) = lpad 2 (digits (month_of d'))"
    and dd: "lpad 2 (digits (day_of d)) = lpad 2 (digits (day_of d'))"
    using split_at_first [OF _ dash_not_digit(2) dash_not_digit(2)] by blast+
  from y m dd have "year_of d = year_of d'" "month_of d = month_of d'" "day_of d = day_of d'"
    by (blast dest: lpad_digits_inj)+
  then show ?thesis
    by (simp add: year_of_def month_of_def day_of_def prod_eq_iff)
qed

lemma ym_inj:
  assumes "to_char_date d ''YYYY-MM'' = to_char_date d' ''YYYY-MM''"
  shows "year_of d = year_of d' \<and> month_of d = month_of d'"
proof -
  from assms [unfolded to_char_ym]
  have "lpad 4 (digits (year_of d)) = lpad 4 (digits (year_of d'))"
    and "lpad 2 (digits (month_of d)) = lpad 2 (digits (month_of d'))"
    using split_at_first [OF _ dash_not_digit(2) dash_not_digit(2)] by blast+
  then show ?thesis by (blast dest: lpad_digits_inj)
qed

lemma yq_inj:
  assumes "to_char_date d ''YYYY-Q'' = to_char_date d' ''YYYY-Q''"
  shows "year_of d = year_of d' \<and> (month_of d - 1) div 3 = (month_of d' - 1) div 3"
proof -
  from assms [unfolded to_char_yq]
  have "lpad 4 (digits (year_of d)) = lpad 4 (digits (year_of d'))"
    and "digits ((month_of d - 1) div 3 + 1) = digits ((month_of d' - 1) div 3 + 1)"
    using split_at_first [OF _ dash_not_digit(2) dash_not_digit(2)] by blast+
  then have "year_of d = year_of d'"
    and "(month_of d - 1) div 3 + 1 = (month_of d' - 1) div 3 + 1"
    by (blast dest: lpad_digits_inj digits_inj)+
  then show ?thesis by simp
qed

text \<open>Two periods of a granularity with the same label are the same period.\<close>

lemma period_label_inj:
  assumes "period_label g ts = period_label g ts'"
  shows "period_expr g ts = period_expr g ts'"
proof -
  consider (ymd) "g = ''daily'' \<or> g = ''weekly''"
    | (ym) "g \<noteq> ''daily''" "g \<noteq> ''weekly''" "g = ''monthly''"
    | (yq) "g \<noteq> ''daily''" "g \<noteq> ''weekly''" "g \<noteq> ''monthly''"
    by blast
  then show ?thesis
  proof cases
    case ymd
    with assms show ?thesis
      unfolding period_label_expr by (auto dest: ymd_inj)
  next
    case ym
    with assms have "to_char_date (period_expr g ts) ''YYYY-MM''
                     = to_char_date (period_expr g ts') ''YYYY-MM''"
      unfolding period_label_expr by simp
    from ym_inj [OF this] ym show ?thesis
      by (simp add: period_expr_def date_trunc_def midnight_def year_of_def month_of_def
            Let_def)
  next
    case yq
    with assms have "to_char_date (period_expr g ts) ''YYYY-Q''
                     = to_char_date (period_expr g ts') ''YYYY-Q''"
      unfolding period_label_expr by simp
    from yq_inj [OF this] yq show ?thesis
      by (simp add: period_expr_def date_trunc_def midnight_def year_of_def month_of_def
            Let_def)
  qed
qed

lemma period_expr_label:
  "period_expr g ts = period_expr g ts' \<Longrightarrow> period_label g ts = period_label g ts'"
  by (simp only: period_label_expr)

lemma distinct_map_sort_key: "distinct (map h (sort_key f xs)) = distinct (map h xs)"
  by (simp add: distinct_map)

text \<open>
  The rows of the period statement: their periods are sorted and distinct, their labels
  are distinct, and each row carries the period and the label of one timestamp.
\<close>

lemma trend_by_period_rows:
  fixes db g branch_ids department_ids df dt
  defines "rows \<equiv> trend_by_period db g branch_ids department_ids df dt"
  shows "sorted (map pr_period_dt rows)"
    and "distinct (map pr_period_dt rows)"
    and "distinct (map pr_period_label rows)"
    and "\<forall>r \<in> set rows. \<exists>ts. pr_period_dt r = period_expr g ts
                               \<and> pr_period_label r = period_label g ts"
proof -
  let ?adm = "trend_adm db branch_ids department_ids df dt"
  let ?key = "\<lambda>e :: admission \<times> discharge.
                (period_expr g (admission_at (fst e)), period_label g (admission_at (fst e)))"
  let ?K = "remdups (map ?key ?adm)"
  let ?mk = "\<lambda>kg :: (date \<times> string) \<times> (admission \<times> discharge) list.
               \<lparr> pr_period_label = snd (fst kg), pr_period_dt = fst (fst kg),
                 pr_admissions = int (length (snd kg)),
                 pr_avg_los = sql_avg (map los_days (snd kg)) \<rparr>"
  let ?rows0 = "map ?mk (group_by ?key ?adm)"
  have rows: "rows = sort_key pr_period_dt ?rows0"
    by (simp add: rows_def trend_by_period_def split_def)
  have dts: "map pr_period_dt ?rows0 = map fst ?K"
    and labels: "map pr_period_label ?rows0 = map snd ?K"
    by (simp_all add: group_by_def comp_def)
  have K: "\<exists>ts. k = (period_expr g ts, period_label g ts)" if "k \<in> set ?K" for k
  proof -
    from that obtain e where "k = ?key e" by auto
    then show ?thesis by (rule exI)
  qed
  have "inj_on fst (set ?K)"
  proof (rule inj_onI)
    fix k k' assume "k \<in> set ?K" "k' \<in> set ?K" "fst k = fst k'"
    with K [of k] K [of k'] show "k = k'"
      by (auto dest: period_expr_label)
  qed
  then have d1: "distinct (map pr_period_dt ?rows0)"
    unfolding dts by (simp add: distinct_map)
  have "inj_on snd (set ?K)"
  proof (rule inj_onI)
    fix k k' assume "k \<in> set ?K" "k' \<in> set ?K" "snd k = snd k'"
    with K [of k] K [of k'] show "k = k'"
      by (auto dest: period_label_inj)
  qed
  then have d2: "distinct (map pr_period_label ?rows0)"
    unfolding labels by (simp add: distinct_map)
  show "sorted (map pr_period_dt rows)"
    unfolding rows by (rule sorted_sort_key)
  show "distinct (map pr_period_dt rows)"
    unfolding rows distinct_map_sort_key by (rule d1)
  show "distinct (map pr_period_label rows)"
    unfolding rows distinct_map_sort_key by (rule d2)
  show "\<forall>r \<in> set rows. \<exists>ts. pr_period_dt r = period_expr g ts
                               \<and> pr_period_label r = period_label g ts"
  proof
    fix r assume "r \<in> set rows"
    then have "r \<in> set ?rows0" unfolding rows by simp
    then obtain kg where kg: "kg \<in> set (group_by ?key ?adm)" and r: "r = ?mk kg"
      by auto
    from kg have "fst kg \<in> fst ` set (group_by ?key ?adm)" by (rule imageI)
    then have "fst kg \<in> set (map fst (group_by ?key ?adm))" by (simp only: set_map)
    then have "fst kg \<in> set ?K" by (simp only: group_by_keys)
    from K [OF this] obtain ts where "fst kg = (period_expr g ts, period_label g ts)" ..
    with r have "pr_period_dt r = period_expr g ts \<and> pr_period_label r = period_label g ts"
      by simp
    then show "\<exists>ts. pr_period_dt r = period_expr g ts
                               \<and> pr_period_label r = period_label g ts" ..
  qed
qed

text \<open>The points of a returned trend carry the periods and labels of the rows.\<close>

lemma get_trends_rows:
  assumes "get_trends today db g branch_ids department_ids date_from date_to = Inr pts"
  shows "\<exists>df dt. map period_dt pts
                    = map pr_period_dt (trend_by_period db g branch_ids department_ids df dt)
                 \<and> map period pts
                    = map pr_period_label (trend_by_period db g branch_ids department_ids df dt)
                 \<and> (\<forall>p \<in> set pts.
                      \<exists>r \<in> set (trend_by_period db g branch_ids department_ids df dt).
                        period_dt p = pr_period_dt r \<and> period p = pr_period_label r)"
proof -
  let ?df = "case date_from of None \<Rightarrow> date_add_days today (- 90) | Some d \<Rightarrow> d"
  let ?dt = "case date_to of None \<Rightarrow> today | Some d \<Rightarrow> d"
  let ?rows = "trend_by_period db g branch_ids department_ids ?df ?dt"
  define mk :: "period_row \<Rightarrow> trend_point" where
    "mk = (\<lambda>r. \<lparr> period = pr_period_label r, period_dt = pr_period_dt r,
                  tp_admissions = pr_admissions r, tp_discharges = pr_admissions r,
                  tp_avg_los_days = py_round2 (py_float (or_zero (pr_avg_los r))),
                  tp_occupancy_pct =
                    py_round2 (case map_of (guarded db Q_trend_occupancy []
                                   (trend_occ_rows db g branch_ids ?df ?dt))
                                 (pr_period_label r) of
                                 None \<Rightarrow> 0 | Some v \<Rightarrow> v) \<rparr>)"
  from assms have pts: "pts = map mk ?rows"
    by (auto simp: get_trends_def execute_def Let_def mk_def split: if_splits)
  have mk: "period_dt (mk r) = pr_period_dt r \<and> period (mk r) = pr_period_label r" for r
    by (simp add: mk_def)
  have "map period_dt pts = map pr_period_dt ?rows"
    and "map period pts = map pr_period_label ?rows"
    by (simp_all add: pts mk comp_def)
  moreover have "\<forall>p \<in> set pts. \<exists>r \<in> set ?rows.
                        period_dt p = pr_period_dt r \<and> period p = pr_period_label r"
    unfolding pts using mk by auto
  ultimately show ?thesis by blast
qed

lemma demo_episode_sel:
  "admission_id (demo_episode_adm i d) = i"
  "branch_id (demo_episode_adm i d) = 1"
  "department_id (demo_episode_adm i d) = 10"
  "admission_at (demo_episode_adm i d) = (d, 32400)"
  "dis_admission_id (demo_episode_dis i d) = i"
  "discharge_at (demo_episode_dis i d) = (d, 32400)"
  by (simp_all add: demo_episode_adm_def demo_episode_dis_def)

lemma trend_demo_adm:
  "trend_adm trend_demo_db None None (2023, 11, 15) (2024, 5, 31) =
     [(demo_episode_adm 1 (2024, 5, 10), demo_episode_dis 1 (2024, 5, 12)),
      (demo_episode_adm 2 (2024, 2, 15), demo_episode_dis 2 (2024, 2, 18)),
      (demo_episode_adm 3 (2023, 11, 30), demo_episode_dis 3 (2023, 12, 2)),
      (demo_episode_adm 4 (2024, 2, 20), demo_episode_dis 4 (2024, 2, 25))]"
  by (simp add: trend_adm_def trend_demo_db_def demo_episode_sel date_defs)

lemma trend_demo_periods:
  "period_expr ''quarterly'' ((2024, 5, 10), 32400) = (2024, 4, 1)"
  "period_expr ''quarterly'' ((2024, 2, 15), 32400) = (2024, 1, 1)"
  "period_expr ''quarterly'' ((2023, 11, 30), 32400) = (2023, 10, 1)"
  "period_expr ''quarterly'' ((2024, 2, 20), 32400) = (2024, 1, 1)"
  by (simp_all add: period_expr_def date_trunc_def date_defs)

lemma trend_demo_labels:
  "period_label ''quarterly'' ((2024, 5, 10), 32400) = ''2024-2''"
  "period_label ''quarterly'' ((2024, 2, 15), 32400) = ''2024-1''"
  "period_label ''quarterly'' ((2023, 11, 30), 32400) = ''2023-4''"
  "period_label ''quarterly'' ((2024, 2, 20), 32400) = ''2024-1''"
  by (simp_all add: period_label_expr trend_demo_periods to_char_yq lpad_def digits.simps
        digit_char_def date_defs)

lemma trend_demo_los:
  "los_days (demo_episode_adm 1 (2024, 5, 10), demo_episode_dis 1 (2024, 5, 12)) = 2"
  "los_days (demo_episode_adm 2 (2024, 2, 15), demo_episode_dis 2 (2024, 2, 18)) = 3"
  "los_days (demo_episode_adm 3 (2023, 11, 30), demo_episode_dis 3 (2023, 12, 2)) = 2"
  "los_days (demo_episode_adm 4 (2024, 2, 20), demo_episode_dis 4 (2024, 2, 25)) = 5"
  by (simp_all add: los_days_def demo_episode_sel epoch_def)

lemma trend_demo_rows:
  "trend_by_period trend_demo_db ''quarterly'' None None (2023, 11, 15) (2024, 5, 31) =
     [\<lparr> pr_period_label = ''2023-4'', pr_period_dt = (2023, 10, 1), pr_admissions = 1,
        pr_avg_los = Some 2 \<rparr>,
      \<lparr> pr_period_label = ''2024-1'', pr_period_dt = (2024, 1, 1), pr_admissions = 2,
        pr_avg_los = Some 4 \<rparr>,
      \<lparr> pr_period_label = ''2024-2'', pr_period_dt = (2024, 4, 1), pr_admissions = 1,
        pr_avg_los = Some 2 \<rparr>]"
  by (simp add: trend_by_period_def trend_demo_adm group_by_def demo_episode_sel
        trend_demo_periods trend_demo_labels trend_demo_los sql_avg_def)

lemma trend_demo_run:
  "get_trends (2024, 6, 1) trend_demo_db ''quarterly'' None None
       (Some (2023, 11, 15)) (Some (2024, 5, 31)) = Inr trend_demo_quarters"
proof -
  have r: "\<not> raises trend_demo_db Q_trend_periods" "\<not> raises trend_demo_db Q_trend_occupancy"
    and ra: "resource_allocation trend_demo_db = []"
    by (simp_all add: trend_demo_db_def)
  show ?thesis
    by (simp add: get_trends_def execute_def guarded_def r trend_demo_rows trend_occ_rows_def
          ra group_by_def or_zero_def trend_demo_quarters_def trend_point_of_def)
qed

subsection \<open>Order of the trend points\<close>

text \<open>
  C9. The points of a returned trend are in strictly increasing order of their period, and
  no period label occurs twice, for every granularity and cohort filter.
\<close>

theorem trend_points_strictly_ordered:
  assumes "get_trends today db g branch_ids department_ids date_from date_to = Inr pts"
  shows "sorted_wrt (<) (map period_dt pts) \<and> distinct (map period pts)"
proof -
  from get_trends_rows [OF assms] obtain df dt
    where "map period_dt pts
             = map pr_period_dt (trend_by_period db g branch_ids department_ids df dt)"
      and "map period pts
             = map pr_period_label (trend_by_period db g branch_ids department_ids df dt)"
    by blast
  then show ?thesis
    using trend_by_period_rows(1-3) [of db g branch_ids department_ids df dt]
    by (simp add: strict_sorted_iff)
qed

theorem trend_points_strictly_ordered_witness:
  "get_trends (2024, 6, 1) trend_demo_db ''quarterly'' None None
       (Some (2023, 11, 15)) (Some (2024, 5, 31)) = Inr trend_demo_quarters
   \<and> map period_dt trend_demo_quarters = [(2023, 10, 1), (2024, 1, 1), (2024, 4, 1)]
   \<and> sorted_wrt (<) (map period_dt trend_demo_quarters)
   \<and> distinct (map period trend_demo_quarters)"
proof -
  have "map period_dt trend_demo_quarters = [(2023, 10, 1), (2024, 1, 1), (2024, 4, 1)]"
    by (simp add: trend_demo_quarters_def trend_point_of_def)
  with trend_points_strictly_ordered [OF trend_demo_run] trend_demo_run
  show ?thesis by blast
qed

subsection \<open>Quarterly labels\<close>

text \<open>
  C10, as stated, fails: in the template \<open>YYYY-Q\<close> the letter Q is the pattern for the
  quarter number, not a literal. The episodes of February 2024 are labelled \<open>2024-1\<close>,
  not \<open>2024-Q1\<close>.
\<close>

theorem quarterly_label_counterexample:
  "get_trends (2024, 6, 1) trend_demo_db ''quarterly'' None None
       (Some (2023, 11, 15)) (Some (2024, 5, 31)) = Inr trend_demo_quarters
   \<and> period_dt (trend_demo_quarters ! 1) = (2024, 1, 1)
   \<and> period (trend_demo_quarters ! 1) = ''2024-1''
   \<and> period (trend_demo_quarters ! 1) \<noteq> ''2024-Q1''"
  using trend_demo_run by (simp add: trend_demo_quarters_def trend_point_of_def)

text \<open>
  C10, amended. For quarterly granularity the label of every trend point is the year of
  its period in four digits (more for a year above 9999), a hyphen and the quarter number
  of the period, and does not contain the letter Q: the first quarter of 2024 is labelled
  \<open>2024-1\<close>.
\<close>

theorem quarterly_label_format:
  assumes "get_trends today db ''quarterly'' branch_ids department_ids date_from date_to
             = Inr pts"
    and "p \<in> set pts"
  shows "period p = lpad 4 (digits (year_of (period_dt p))) @ ''-''
                      @ digits ((month_of (period_dt p) - 1) div 3 + 1)
         \<and> CHR ''Q'' \<notin> set (period p)"
proof -
  from get_trends_rows [OF assms(1)] assms(2) obtain df dt r
    where r: "r \<in> set (trend_by_period db ''quarterly'' branch_ids department_ids df dt)"
      and p: "period_dt p = pr_period_dt r" "period p = pr_period_label r"
    by blast
  from trend_by_period_rows(4) [of db "''quarterly''" branch_ids department_ids df dt] r
  obtain ts where "pr_period_dt r = period_expr ''quarterly'' ts"
    and "pr_period_label r = period_label ''quarterly'' ts"
    by blast
  with p have "period p = to_char_date (period_dt p) ''YYYY-Q''"
    by (simp add: period_label_expr)
  then have l: "period p = lpad 4 (digits (year_of (period_dt p))) @ ''-''
                      @ digits ((month_of (period_dt p) - 1) div 3 + 1)"
    by (simp add: to_char_yq)
  have "CHR ''Q'' \<notin> set (period p)"
    unfolding l using Q_not_digit by simp
  with l show ?thesis by blast
qed

theorem quarterly_label_format_witness:
  "get_trends (2024, 6, 1) trend_demo_db ''quarterly'' None None
       (Some (2023, 11, 15)) (Some (2024, 5, 31)) = Inr trend_demo_quarters
   \<and> trend_point_of ''2024-1'' (2024, 1, 1) 2 4 \<in> set trend_demo_quarters
   \<and> period (trend_point_of ''2024-1'' (2024, 1, 1) 2 4)
       = lpad 4 (digits 2024) @ ''-'' @ digits 1
   \<and> CHR ''Q'' \<notin> set (period (trend_point_of ''2024-1'' (2024, 1, 1) 2 4))"
proof -
  have m: "trend_point_of ''2024-1'' (2024, 1, 1) 2 4 \<in> set trend_demo_quarters"
    by (simp add: trend_demo_quarters_def)
  have d: "year_of (period_dt (trend_point_of ''2024-1'' (2024, 1, 1) 2 4)) = 2024"
    "(month_of (period_dt (trend_point_of ''2024-1'' (2024, 1, 1) 2 4)) - 1) div 3 + 1 = 1"
    by (simp_all add: trend_point_of_def year_of_def month_of_def)
  from quarterly_label_format [OF trend_demo_run m] m trend_demo_run
  show ?thesis unfolding d by blast
qed

end
